theory Spec2Isabelle
  imports Main "HOL-Library.Product_Lexorder"
begin

unbundle bit_operations_syntax

section \<open>JavaScript strings and values\<close>

text \<open>
  Strings of the TypeScript sources are modelled as \<^typ>\<open>string\<close>. The functions below
  are the string primitives the sources call: digit classes of a regular expression,
  \<open>parseInt\<close> and \<open>Number\<close> on a run of decimal digits, number-to-string conversion,
  \<open>split\<close>, \<open>indexOf\<close>, \<open>trim\<close>, \<open>join\<close> and \<open>toLowerCase\<close>.
\<close>

definition is_digit :: "char \<Rightarrow> bool" where
  "is_digit c = (48 \<le> (of_char c :: nat) \<and> (of_char c :: nat) \<le> 57)"

definition digit_val :: "char \<Rightarrow> nat" where
  "digit_val c = of_char c - 48"

text \<open>
  \<open>parseInt(s, 10)\<close> (and \<open>Number(s)\<close>) on a non-empty run of decimal digits. The
  result is a natural number; the source's numbers are doubles, which agree with it up
  to \<open>2^53\<close> and keep the order against the small constants compared below.
\<close>

definition parseInt :: "string \<Rightarrow> nat" where
  "parseInt ds = foldl (\<lambda>n c. 10 * n + digit_val c) 0 ds"

fun show_nat :: "nat \<Rightarrow> string" where
  "show_nat n =
     (if n < 10 then [char_of (48 + n)]
      else show_nat (n div 10) @ [char_of (48 + n mod 10)])"

declare show_nat.simps [simp del]

text \<open>\<open>s.split(c)\<close> for a one-character separator: always at least one piece.\<close>

fun split_on :: "char \<Rightarrow> string \<Rightarrow> string list" where
  "split_on c [] = [[]]"
| "split_on c (x # xs) =
     (if x = c then [] # split_on c xs
      else (case split_on c xs of
              [] \<Rightarrow> [[x]]
            | p # ps \<Rightarrow> (x # p) # ps))"

text \<open>\<open>s.indexOf(c)\<close>: the index of the first occurrence, or \<open>-1\<close>.\<close>

fun indexOf :: "char \<Rightarrow> string \<Rightarrow> int" where
  "indexOf c [] = -1"
| "indexOf c (x # xs) =
     (if x = c then 0
      else (let i = indexOf c xs in if i < 0 then -1 else i + 1))"

text \<open>\<open>xs.join(sep)\<close>.\<close>

fun join_with :: "string \<Rightarrow> string list \<Rightarrow> string" where
  "join_with s [] = []"
| "join_with s [x] = x"
| "join_with s (x # y # ys) = x @ s @ join_with s (y # ys)"

text \<open>\<open>toLowerCase\<close> on the ASCII letters.\<close>

definition lower_char :: "char \<Rightarrow> char" where
  "lower_char c =
     (case map_of (zip ''ABCDEFGHIJKLMNOPQRSTUVWXYZ'' ''abcdefghijklmnopqrstuvwxyz'') c of
        Some l \<Rightarrow> l
      | None \<Rightarrow> c)"

definition toLowerCase :: "string \<Rightarrow> string" where
  "toLowerCase s = map lower_char s"

text \<open>\<open>trim\<close>: strips the ASCII white space (tab, line feed, vertical tab, form feed,
  carriage return, space) at both ends.\<close>

definition is_space :: "char \<Rightarrow> bool" where
  "is_space c = ((9 \<le> (of_char c :: nat) \<and> (of_char c :: nat) \<le> 13) \<or> (of_char c :: nat) = 32)"

definition trim :: "string \<Rightarrow> string" where
  "trim s = rev (dropWhile is_space (rev (dropWhile is_space s)))"

text \<open>The backslash, which a string literal cannot hold.\<close>

abbreviation BSL :: char where
  "BSL \<equiv> CHR 0x5C"

text \<open>
  A value stored under a key of a JavaScript object that holds environment variables:
  a string, or \<open>undefined\<close>. \<open>process.env\<close> and the objects spread from it are of type
  \<open>jsobj\<close>; a \<open>Record<string, string>\<close> built from strings only is an \<open>env\<close>.
\<close>

datatype jsval = Str string | Undefined

type_synonym jsobj = "string \<rightharpoonup> jsval"
type_synonym env = "string \<rightharpoonup> string"

definition to_obj :: "env \<Rightarrow> jsobj" where
  "to_obj e = (\<lambda>k. map_option Str (e k))"

text \<open>Truthiness of a property read \<open>obj.KEY\<close>: a non-empty string.\<close>

fun truthy :: "jsval option \<Rightarrow> bool" where
  "truthy (Some (Str s)) = (s \<noteq> [])"
| "truthy _ = False"

text \<open>\<open>obj.KEY || dflt\<close> where the default is a string.\<close>

fun or_default :: "jsval option \<Rightarrow> string \<Rightarrow> string" where
  "or_default (Some (Str s)) d = (if s \<noteq> [] then s else d)"
| "or_default _ d = d"

text \<open>
  The assignment \<open>obj[key] = value\<close> to an object that was created by the literal \<open>{}\<close>,
  where the value is a string or \<open>undefined\<close>. It creates or overwrites the property,
  except under the key \<open>__proto__\<close>: that name is an accessor of \<open>Object.prototype\<close>,
  whose setter ignores a value that is not an object, so nothing is stored. (An object
  spread \<open>{...obj}\<close> defines its properties instead of assigning them and keeps such a
  key; it is a plain copy or update of the map.)
\<close>

definition assign :: "(string \<rightharpoonup> 'a) \<Rightarrow> string \<Rightarrow> 'a \<Rightarrow> (string \<rightharpoonup> 'a)" where
  "assign obj key v = (if key = ''__proto__'' then obj else obj(key \<mapsto> v))"

text \<open>
  The loop \<open>for (const [key, value] of Object.entries(obj)) if (typeof value === "string")
  target[key] = value\<close> into a fresh \<open>target = {}\<close>: every key occurs once among the
  entries, so the target holds under a key what the assignment of that entry stored.
\<close>

definition string_entries :: "jsobj \<Rightarrow> env" where
  "string_entries obj =
     (\<lambda>k. case obj k of Some (Str v) \<Rightarrow> assign Map.empty k v k | _ \<Rightarrow> None)"

text \<open>
  A thrown value: an \<open>Error\<close> object with an optional \<open>code\<close> property and its message,
  or any other value, given by its string conversion.
\<close>

datatype thrown = ErrorObj "string option" string | NonError string

fun thrown_code :: "thrown \<Rightarrow> string option" where
  "thrown_code (ErrorObj c m) = c"
| "thrown_code (NonError s) = None"

text \<open>\<open>error instanceof Error ? error.message : String(error)\<close>\<close>

fun thrown_text :: "thrown \<Rightarrow> string" where
  "thrown_text (ErrorObj c m) = m"
| "thrown_text (NonError s) = s"

section \<open>The host: platform, file system, process spawning\<close>

record Stats =
  isFile :: bool
  mode :: nat

record exec_options =
  o_encoding :: "string option"
  o_timeout :: "nat option"
  o_env :: "jsobj option"
  o_cwd :: "string option"

type_synonym exec_result = "thrown + (string \<times> string)"
type_synonym exec_fn = "string \<Rightarrow> string list \<Rightarrow> exec_options \<Rightarrow> exec_result"

text \<open>
  Everything the sources read from Node and the operating system. The functions of
  \<open>node:path\<close>, \<open>node:fs\<close>, \<open>node:os\<close>, \<open>node:util\<close> and \<open>node:child_process\<close> are not
  part of the repository: they are parameters here, so every theorem below holds
  whatever they compute. \<open>os.userInfo()\<close> is documented to throw, so it is a sum;
  \<open>os.homedir()\<close> and the functions of \<open>node:path\<close>, for which no error is documented
  on the strings they are given here, return. \<open>execFile\<close> gives the captured stdout and stderr, or the error it rejects with (spawn
  failure, time-out, non-zero exit). Keys of \<open>process.env\<close> are looked up as they are
  written; on Windows, where Node ignores their case, the inputs below write \<open>PATH\<close> and
  \<open>SystemRoot\<close> as the sources do.
\<close>

record host =
  platform :: string
  homedir :: string
  userInfo_username :: "thrown + string"
  isAbsolute :: "string \<Rightarrow> bool"
  normalize :: "string \<Rightarrow> string"
  resolve :: "string \<Rightarrow> string"
  join :: "string list \<Rightarrow> string"
  sep :: char
  stat :: "string \<Rightarrow> thrown + Stats"
  existsSync :: "string \<Rightarrow> bool"
  execFile :: exec_fn
  execSync :: "string \<Rightarrow> exec_options \<Rightarrow> thrown + string"
  stripVTControlCharacters :: "string \<Rightarrow> string"

definition S_IXUSR :: nat where
  "S_IXUSR = 64"

section \<open>Path validation (system-cli-resolver)\<close>

text \<open>The inner \<open>try\<close> of \<open>validateCliPath\<close>: \<open>stat\<close>, the file-type and permission checks,
  and the \<open>catch\<close> that turns \<open>ENOENT\<close> into a reason and rethrows everything else.\<close>

definition validate_stat :: "host \<Rightarrow> string \<Rightarrow> thrown + string option" where
  "validate_stat h normalized =
     (case stat h normalized of
        Inl e \<Rightarrow>
          if thrown_code e = Some ''ENOENT'' then Inr (Some ''CLI path does not exist'')
          else Inl e
      | Inr stats \<Rightarrow>
          if \<not> isFile stats then Inr (Some ''CLI path must point to a file, not a directory'')
          else if platform h \<noteq> ''win32'' \<and> \<not> ((mode stats AND S_IXUSR) \<noteq> 0)
               then Inr (Some ''CLI path is not executable'')
          else Inr None)"

text \<open>The body of the outer \<open>try\<close>.\<close>

definition validate_body :: "host \<Rightarrow> string \<Rightarrow> thrown + string option" where
  "validate_body h cliPath =
     (if \<not> isAbsolute h cliPath then Inr (Some ''CLI path must be absolute'')
      else (let normalized = normalize h cliPath in
            if normalized \<noteq> cliPath
            then Inr (Some ''CLI path contains invalid characters or redundant separators'')
            else (let parts = split_on (sep h) normalized in
                  if list_ex (\<lambda>part. part = ''..'' \<or> part = ''.'') parts
                  then Inr (Some ''CLI path cannot contain directory traversal (.. or .)'')
                  else validate_stat h normalized)))"

text \<open>\<open>validateCliPath\<close>: \<open>None\<close> is the source's \<open>null\<close> (valid), \<open>Some reason\<close> a rejection.
  The outer \<open>catch\<close> turns whatever was thrown into a reason.\<close>

definition validateCliPath :: "host \<Rightarrow> string \<Rightarrow> string option" where
  "validateCliPath h cliPath =
     (case validate_body h cliPath of
        Inr r \<Rightarrow> r
      | Inl e \<Rightarrow> Some (''Validation error: '' @ thrown_text e))"

section \<open>Version parsing and compatibility (system-cli-resolver)\<close>

definition MINIMUM_CLAUDE_VERSION :: string where
  "MINIMUM_CLAUDE_VERSION = ''2.0.0''"

record ClaudeVersionInfo =
  version :: string
  major :: nat
  minor :: nat
  patch :: nat
  isCompatible :: bool

text \<open>
  The regular expression \<open>/(\d+)\.(\d+)\.(\d+)/\<close> anchored at the head of a string.
  A group \<open>\d+\<close> followed by a literal dot can only match the maximal run of digits,
  and the last group is greedy.
\<close>

definition match_here :: "string \<Rightarrow> (string \<times> string \<times> string) option" where
  "match_here s =
     (let d1 = takeWhile is_digit s; r1 = dropWhile is_digit s in
      if d1 = [] then None
      else (case r1 of
              [] \<Rightarrow> None
            | c1 # t1 \<Rightarrow>
                if c1 \<noteq> CHR ''.'' then None
                else (let d2 = takeWhile is_digit t1; r2 = dropWhile is_digit t1 in
                      if d2 = [] then None
                      else (case r2 of
                              [] \<Rightarrow> None
                            | c2 # t2 \<Rightarrow>
                                if c2 \<noteq> CHR ''.'' then None
                                else (let d3 = takeWhile is_digit t2 in
                                      if d3 = [] then None else Some (d1, d2, d3))))))"

text \<open>\<open>output.match(re)\<close>: the leftmost position at which the expression matches.\<close>

fun version_match :: "string \<Rightarrow> (string \<times> string \<times> string) option" where
  "version_match [] = match_here []"
| "version_match (c # cs) =
     (case match_here (c # cs) of
        Some m \<Rightarrow> Some m
      | None \<Rightarrow> version_match cs)"

definition minParts :: "nat list" where
  "minParts = map parseInt (split_on CHR ''.'' MINIMUM_CLAUDE_VERSION)"

definition parseVersion :: "string \<Rightarrow> ClaudeVersionInfo option" where
  "parseVersion output =
     (case version_match output of
        None \<Rightarrow> None
      | Some (g1, g2, g3) \<Rightarrow>
          (let mj = parseInt g1; mn = parseInt g2; pt = parseInt g3 in
           Some \<lparr> version = show_nat mj @ ''.'' @ show_nat mn @ ''.'' @ show_nat pt,
                  major = mj, minor = mn, patch = pt,
                  isCompatible =
                    (mj > minParts ! 0 \<or>
                     (mj = minParts ! 0 \<and>
                        (mn > minParts ! 1 \<or>
                         (mn = minParts ! 1 \<and> pt \<ge> minParts ! 2)))) \<rparr>))"

section \<open>Shell environment (git/shell-env.ts)\<close>

text \<open>
  The module's variables \<open>cachedEnv\<close>, \<open>cacheTime\<close>, \<open>isFallbackCache\<close>,
  \<open>pathFixAttempted\<close> and \<open>pathFixSucceeded\<close>, together with \<open>process.env\<close>, which
  \<open>execWithShellEnv\<close> assigns to.
\<close>

record shell_state =
  process_env :: jsobj
  cachedEnv :: "env option"
  cacheTime :: int
  isFallbackCache :: bool
  pathFixAttempted :: bool
  pathFixSucceeded :: bool

definition CACHE_TTL_MS :: int where
  "CACHE_TTL_MS = 60000"

definition FALLBACK_CACHE_TTL_MS :: int where
  "FALLBACK_CACHE_TTL_MS = 10000"

text \<open>\<open>process.env.PATH.split(";").filter(Boolean)\<close>, or nothing when \<open>PATH\<close> is unset or empty.\<close>

definition existing_entries :: "jsobj \<Rightarrow> string list" where
  "existing_entries pe =
     (case pe ''PATH'' of
        Some (Str p) \<Rightarrow> if p \<noteq> [] then filter (\<lambda>e. e \<noteq> []) (split_on CHR '';'' p) else []
      | _ \<Rightarrow> [])"

definition git_commonPaths :: "host \<Rightarrow> jsobj \<Rightarrow> string list" where
  "git_commonPaths h pe =
     [join h [homedir h, ''.local'', ''bin''],
      ''C:'' @ BSL # ''Program Files'' @ BSL # ''Git'' @ BSL # ''cmd'',
      ''C:'' @ BSL # ''Program Files'' @ BSL # ''Git'' @ BSL # ''bin'',
      join h [or_default (pe ''SystemRoot'') (''C:'' @ BSL # ''Windows''), ''System32''],
      join h [or_default (pe ''SystemRoot'') (''C:'' @ BSL # ''Windows'')]]"

text \<open>The loop over \<open>commonPaths\<close> of shell-env.ts: a candidate is appended, normalized,
  unless an entry already present equals it after normalization and case folding.\<close>

fun git_add_common :: "(string \<Rightarrow> string) \<Rightarrow> string list \<Rightarrow> string list \<Rightarrow> string list" where
  "git_add_common nrm [] paths = paths"
| "git_add_common nrm (commonPath # rest) paths =
     (let normalizedPath = nrm commonPath;
          normalizedLower = toLowerCase normalizedPath;
          alreadyExists = list_ex (\<lambda>p. toLowerCase (nrm p) = normalizedLower) paths
      in git_add_common nrm rest
           (if \<not> alreadyExists then paths @ [normalizedPath] else paths))"

text \<open>The list \<open>paths\<close> that \<open>buildWindowsPath\<close> of shell-env.ts joins.\<close>

definition git_path_entries :: "host \<Rightarrow> jsobj \<Rightarrow> string list" where
  "git_path_entries h pe =
     git_add_common (normalize h) (git_commonPaths h pe) (existing_entries pe)"

definition git_buildWindowsPath :: "host \<Rightarrow> jsobj \<Rightarrow> string" where
  "git_buildWindowsPath h pe = join_with '';'' (git_path_entries h pe)"

text \<open>The loop that parses the lines of \<open>env\<close>'s output: a line is split at its first
  \<open>=\<close>, when that stands at index 1 or later, and \<open>env[key] = value\<close> is assigned; a
  later line overwrites an earlier key.\<close>

definition parse_env_line :: "env \<Rightarrow> string \<Rightarrow> env" where
  "parse_env_line e line =
     (let idx = indexOf CHR ''='' line in
      if idx > 0
      then (let key = take (nat idx) line; v = drop (nat idx + 1) line in assign e key v)
      else e)"

definition parse_env_lines :: "string list \<Rightarrow> env" where
  "parse_env_lines lines = foldl parse_env_line Map.empty lines"

text \<open>The Windows branch of \<open>getShellEnvironment\<close>: the object \<open>env\<close> is spread from
  \<open>process.env\<close>, and \<open>stringEnv\<close> is filled from it by assignments.\<close>

definition derive_windows :: "host \<Rightarrow> int \<Rightarrow> shell_state \<Rightarrow> thrown + (env \<times> shell_state)" where
  "derive_windows h now s =
     (case userInfo_username h of
        Inl e \<Rightarrow> Inl e
      | Inr user \<Rightarrow>
          (let env = (process_env s)
                 (''PATH'' \<mapsto> Str (git_buildWindowsPath h (process_env s)),
                  ''HOME'' \<mapsto> Str (homedir h),
                  ''USER'' \<mapsto> Str user,
                  ''USERPROFILE'' \<mapsto> Str (homedir h));
               stringEnv = string_entries env
           in Inr (stringEnv,
                   s\<lparr>cachedEnv := Some stringEnv, cacheTime := now, isFallbackCache := False\<rparr>)))"

text \<open>The macOS/Linux branch. \<open>shell_spawn\<close> is the call
  \<open>execFileAsync(shell, ["-lc", "env"], {timeout, env})\<close>; whatever the \<open>try\<close> block
  throws leads to the copy of \<open>process.env\<close>, filled by the assignments
  \<open>fallback[key] = value\<close>.\<close>

definition shell_spawn :: "host \<Rightarrow> shell_state \<Rightarrow> exec_result" where
  "shell_spawn h s =
     (let shell = or_default (process_env s ''SHELL'')
                    (if platform h = ''darwin'' then ''/bin/zsh'' else ''/bin/bash'')
      in execFile h shell [''-lc'', ''env'']
           \<lparr>o_encoding = None, o_timeout = Some 10000,
            o_env = Some ((process_env s)(''HOME'' \<mapsto> Str (homedir h))),
            o_cwd = None\<rparr>)"

definition derive_shell :: "host \<Rightarrow> int \<Rightarrow> shell_state \<Rightarrow> env \<times> shell_state" where
  "derive_shell h now s =
     (case shell_spawn h s of
           Inr (stdout, stderr) \<Rightarrow>
             (let env = parse_env_lines (split_on CHR ''\<newline>'' stdout)
              in (env, s\<lparr>cachedEnv := Some env, cacheTime := now, isFallbackCache := False\<rparr>))
         | Inl error \<Rightarrow>
             (let fallback = string_entries (process_env s)
              in (fallback,
                  s\<lparr>cachedEnv := Some fallback, cacheTime := now, isFallbackCache := True\<rparr>)))"

text \<open>\<open>getShellEnvironment\<close>: \<open>now\<close> is \<open>Date.now()\<close>. \<open>Inl\<close> is a rejected promise.\<close>

definition getShellEnvironment :: "host \<Rightarrow> int \<Rightarrow> shell_state \<Rightarrow> thrown + (env \<times> shell_state)" where
  "getShellEnvironment h now s =
     (let ttl = (if isFallbackCache s then FALLBACK_CACHE_TTL_MS else CACHE_TTL_MS) in
      if cachedEnv s \<noteq> None \<and> now - cacheTime s < ttl then Inr (the (cachedEnv s), s)
      else if platform h = ''win32'' then derive_windows h now s
      else Inr (derive_shell h now s))"

definition clearShellEnvCache :: "shell_state \<Rightarrow> shell_state" where
  "clearShellEnvCache s = s\<lparr>cachedEnv := None, cacheTime := 0, isFallbackCache := False\<rparr>"

text \<open>What a call did, in order: a process it spawned through \<open>execFile\<close>, or a call of
  \<open>getShellEnvironment\<close>. The trace is not in the source; it records the effects that the
  properties of \<open>execWithShellEnv\<close> count.\<close>

datatype event = Exec string "string list" exec_options | Derive

text \<open>\<open>error instanceof Error && "code" in error && error.code === "ENOENT"\<close>\<close>

definition is_ENOENT :: "thrown \<Rightarrow> bool" where
  "is_ENOENT e = (thrown_code e = Some ''ENOENT'')"

text \<open>\<open>{ ...options, encoding: "utf8" }\<close>\<close>

definition with_utf8 :: "exec_options option \<Rightarrow> exec_options" where
  "with_utf8 options =
     (case options of
        None \<Rightarrow> \<lparr>o_encoding = Some ''utf8'', o_timeout = None, o_env = None, o_cwd = None\<rparr>
      | Some opts \<Rightarrow> opts\<lparr>o_encoding := Some ''utf8''\<rparr>)"

text \<open>\<open>options?.env\<close>, spread: nothing when absent.\<close>

definition caller_env :: "exec_options option \<Rightarrow> jsobj" where
  "caller_env options =
     (case options of
        None \<Rightarrow> Map.empty
      | Some opts \<Rightarrow> (case o_env opts of None \<Rightarrow> Map.empty | Some e \<Rightarrow> e))"

definition retryEnv :: "env \<Rightarrow> exec_options option \<Rightarrow> jsobj" where
  "retryEnv shellEnv options =
     (case shellEnv ''PATH'' of
        Some p \<Rightarrow>
          if p \<noteq> [] then (to_obj shellEnv ++ caller_env options)(''PATH'' \<mapsto> Str p)
          else to_obj shellEnv ++ caller_env options
      | None \<Rightarrow> to_obj shellEnv ++ caller_env options)"

text \<open>The assignment \<open>process.env.PATH = shellEnv.PATH; pathFixSucceeded = true\<close>, made when
  \<open>shellEnv.PATH\<close> is a non-empty string.\<close>

definition persist_fix :: "env \<Rightarrow> shell_state \<Rightarrow> shell_state" where
  "persist_fix shellEnv s =
     (case shellEnv ''PATH'' of
        Some p \<Rightarrow>
          if p \<noteq> []
          then s\<lparr>process_env := (process_env s)(''PATH'' \<mapsto> Str p), pathFixSucceeded := True\<rparr>
          else s
      | None \<Rightarrow> s)"

text \<open>
  \<open>execWithShellEnv\<close>. The first run of the command is \<open>execFile h\<close>; \<open>retry\<close> is the
  outcome of the second run, which may differ from the first even on equal arguments.
  The result is the resolved value or the thrown error, the new state, and the trace.
\<close>

definition execWithShellEnv ::
  "host \<Rightarrow> exec_fn \<Rightarrow> int \<Rightarrow> string \<Rightarrow> string list \<Rightarrow> exec_options option \<Rightarrow> shell_state
     \<Rightarrow> exec_result \<times> shell_state \<times> event list" where
  "execWithShellEnv h retry now cmd args options s =
     (case execFile h cmd args (with_utf8 options) of
        Inr out \<Rightarrow> (Inr out, s, [Exec cmd args (with_utf8 options)])
      | Inl error \<Rightarrow>
          if platform h \<noteq> ''darwin'' \<or> pathFixSucceeded s \<or> pathFixAttempted s
             \<or> \<not> is_ENOENT error
          then (Inl error, s, [Exec cmd args (with_utf8 options)])
          else
            (let s1 = s\<lparr>pathFixAttempted := True\<rparr> in
             case getShellEnvironment h now s1 of
               Inl retryError \<Rightarrow>
                 (Inl retryError, s1\<lparr>pathFixAttempted := False\<rparr>,
                  [Exec cmd args (with_utf8 options), Derive])
             | Inr (shellEnv, s2) \<Rightarrow>
                 (let s3 = persist_fix shellEnv s2;
                      opts2 = (with_utf8 options)\<lparr>o_env := Some (retryEnv shellEnv options)\<rparr>
                  in case retry cmd args opts2 of
                       Inr out \<Rightarrow>
                         (Inr out, s3,
                          [Exec cmd args (with_utf8 options), Derive, Exec cmd args opts2])
                     | Inl retryError \<Rightarrow>
                         (Inl retryError, s3\<lparr>pathFixAttempted := False\<rparr>,
                          [Exec cmd args (with_utf8 options), Derive, Exec cmd args opts2]))))"

section \<open>CLI resolution (system-cli-resolver)\<close>

datatype ClaudeCliHealthStatus =
  OK | MISSING | VERSION_INCOMPATIBLE | PERMISSION_ERROR | VALIDATION_ERROR

record ClaudeCliResolution =
  path :: "string option"
  cli_version :: "ClaudeVersionInfo option"
  status :: ClaudeCliHealthStatus
  error :: "string option"

record ResolutionCache = ClaudeCliResolution +
  timestamp :: int

text \<open>\<open>{ ...result, timestamp: Date.now() }\<close> and the copy made on a cache hit.\<close>

definition to_cache :: "ClaudeCliResolution \<Rightarrow> int \<Rightarrow> ResolutionCache" where
  "to_cache r t =
     \<lparr>path = path r, cli_version = cli_version r, status = status r, error = error r,
      timestamp = t\<rparr>"

definition from_cache :: "ResolutionCache \<Rightarrow> ClaudeCliResolution" where
  "from_cache c =
     \<lparr>path = path c, cli_version = cli_version c, status = status c, error = error c\<rparr>"

definition clearResolutionCache :: "ResolutionCache option \<Rightarrow> ResolutionCache option" where
  "clearResolutionCache c = None"

text \<open>Truthiness of a \<open>string | null\<close>: set, and not the empty string.\<close>

fun is_set :: "string option \<Rightarrow> bool" where
  "is_set None = False"
| "is_set (Some s) = (s \<noteq> [])"

text \<open>\<open>getCliVersion\<close>: runs \<open>cliPath --version\<close>; any failure gives \<open>null\<close>.\<close>

definition getCliVersion :: "host \<Rightarrow> string \<Rightarrow> jsobj \<Rightarrow> ClaudeVersionInfo option" where
  "getCliVersion h cliPath env =
     (case execFile h cliPath [''--version'']
             \<lparr>o_encoding = Some ''utf8'', o_timeout = Some 10000, o_env = Some env,
              o_cwd = None\<rparr> of
        Inr (stdout, stderr) \<Rightarrow> parseVersion stdout
      | Inl e \<Rightarrow> None)"

text \<open>The options of the two lookup commands.\<close>

definition lookup_options :: "jsobj \<Rightarrow> exec_options" where
  "lookup_options env =
     \<lparr>o_encoding = Some ''utf8'', o_timeout = Some 5000, o_env = Some env, o_cwd = None\<rparr>"

text \<open>The Windows loop of \<open>resolveFromPath\<close>: \<open>where candidate\<close>, first line of the output.
  \<open>split\<close> always gives a first piece, so the optional chaining never yields \<open>undefined\<close>.\<close>

fun lookup_where :: "host \<Rightarrow> jsobj \<Rightarrow> string list \<Rightarrow> string option" where
  "lookup_where h env [] = None"
| "lookup_where h env (candidate # rest) =
     (case execFile h ''where'' [candidate] (lookup_options env) of
        Inr (stdout, stderr) \<Rightarrow>
          (let resolved = trim (hd (split_on CHR ''\<newline>'' (trim stdout))) in
           if resolved \<noteq> [] \<and> existsSync h resolved then Some (resolve h resolved)
           else lookup_where h env rest)
      | Inl e \<Rightarrow> lookup_where h env rest)"

text \<open>The loop for the other platforms: \<open>which candidate\<close>.\<close>

fun lookup_which :: "host \<Rightarrow> jsobj \<Rightarrow> string list \<Rightarrow> string option" where
  "lookup_which h env [] = None"
| "lookup_which h env (candidate # rest) =
     (case execFile h ''which'' [candidate] (lookup_options env) of
        Inr (stdout, stderr) \<Rightarrow>
          (let resolved = trim stdout in
           if resolved \<noteq> [] \<and> existsSync h resolved then Some (resolve h resolved)
           else lookup_which h env rest)
      | Inl e \<Rightarrow> lookup_which h env rest)"

definition resolveFromPath :: "host \<Rightarrow> jsobj \<Rightarrow> string option" where
  "resolveFromPath h env =
     (let candidates = (if platform h = ''win32''
                        then [''claude.exe'', ''claude.cmd'', ''claude''] else [''claude''])
      in if platform h = ''win32'' then lookup_where h env candidates
         else lookup_which h env candidates)"

record resolve_options =
  configuredPath :: "string option"
  skipCache :: bool

text \<open>\<open>const { configuredPath = null, skipCache = false } = options || {}\<close>\<close>

definition with_defaults :: "resolve_options option \<Rightarrow> resolve_options" where
  "with_defaults options =
     (case options of
        None \<Rightarrow> \<lparr>configuredPath = None, skipCache = False\<rparr>
      | Some opts \<Rightarrow> opts)"

text \<open>Step 1 of \<open>resolveClaudeCli\<close>: the pair \<open>(resolvedPath, validationError)\<close> after the
  configured path has been looked at.\<close>

definition try_configured :: "host \<Rightarrow> string option \<Rightarrow> string option \<times> string option" where
  "try_configured h configured =
     (case configured of
        None \<Rightarrow> (None, None)
      | Some cp \<Rightarrow>
          if cp = [] then (None, None)
          else (let validationError = validateCliPath h cp in
                if \<not> is_set validationError then (Some (resolve h cp), validationError)
                else (None, validationError)))"

text \<open>Step 2: the lookup in \<open>PATH\<close>, made only when no path is resolved yet.\<close>

definition try_path :: "host \<Rightarrow> jsobj \<Rightarrow> string option \<Rightarrow> string option" where
  "try_path h shellEnv resolvedPath =
     (if \<not> is_set resolvedPath then resolveFromPath h shellEnv else resolvedPath)"

text \<open>A template literal renders \<open>null\<close> as the text \<open>null\<close>.\<close>

definition show_nullable :: "string option \<Rightarrow> string" where
  "show_nullable v = (case v of None \<Rightarrow> ''null'' | Some s \<Rightarrow> s)"

text \<open>Steps 3 to 6, from the resolved path and the validation error of step 1 to the
  result.\<close>

definition classify ::
  "host \<Rightarrow> jsobj \<Rightarrow> string option \<Rightarrow> string option \<Rightarrow> string option \<Rightarrow> ClaudeCliResolution" where
  "classify h shellEnv configured resolvedPath validationError0 =
     (if \<not> is_set resolvedPath then
        \<lparr>path = None, cli_version = None, status = MISSING,
         error = Some (if is_set configured
                       then ''Configured path invalid: '' @ show_nullable validationError0
                              @ ''. Also not found in PATH.''
                       else ''Claude CLI not found in PATH. Install it or configure a custom path in settings.'')\<rparr>
      else
        (let validationError =
               (if \<not> is_set validationError0 then validateCliPath h (the resolvedPath)
                else validationError0)
         in if is_set validationError then
              \<lparr>path = resolvedPath, cli_version = None, status = VALIDATION_ERROR,
               error = validationError\<rparr>
            else
              (case getCliVersion h (the resolvedPath) shellEnv of
                 None \<Rightarrow>
                   \<lparr>path = resolvedPath, cli_version = None, status = VERSION_INCOMPATIBLE,
                    error = Some ''Failed to determine Claude CLI version. CLI may be corrupted or incompatible.''\<rparr>
               | Some v \<Rightarrow>
                   if \<not> isCompatible v then
                     \<lparr>path = resolvedPath, cli_version = Some v, status = VERSION_INCOMPATIBLE,
                      error = Some (''Claude CLI version '' @ version v
                                    @ '' is below minimum required version ''
                                    @ MINIMUM_CLAUDE_VERSION @ ''. Please upgrade.'')\<rparr>
                   else
                     \<lparr>path = resolvedPath, cli_version = Some v, status = OK, error = None\<rparr>)))"

text \<open>The environment of the resolution: \<open>getShellEnvironment()\<close>, or a copy of
  \<open>process.env\<close> when that call throws.\<close>

definition resolution_env :: "host \<Rightarrow> int \<Rightarrow> shell_state \<Rightarrow> jsobj \<times> shell_state" where
  "resolution_env h now s =
     (case getShellEnvironment h now s of
        Inr (e, s') \<Rightarrow> (to_obj e, s')
      | Inl err \<Rightarrow> (process_env s, s))"

text \<open>
  \<open>resolveClaudeCli\<close>. \<open>now\<close> is the clock read by \<open>getShellEnvironment\<close>, \<open>stamp\<close> the one
  stored with the cache entry. The state is the module's \<open>resolutionCache\<close> and the state
  of shell-env.ts. Every branch that resolves stores its result.
\<close>

definition resolveClaudeCli ::
  "host \<Rightarrow> int \<Rightarrow> int \<Rightarrow> resolve_options option \<Rightarrow> ResolutionCache option \<times> shell_state
     \<Rightarrow> ClaudeCliResolution \<times> ResolutionCache option \<times> shell_state" where
  "resolveClaudeCli h now stamp options st =
     (let opts = with_defaults options; resolutionCache = fst st; s = snd st in
      if \<not> skipCache opts \<and> resolutionCache \<noteq> None
      then (from_cache (the resolutionCache), resolutionCache, s)
      else
        (let (shellEnv, s') = resolution_env h now s;
             (resolved1, validationError) = try_configured h (configuredPath opts);
             resolvedPath = try_path h shellEnv resolved1;
             result = classify h shellEnv (configuredPath opts) resolvedPath validationError
         in (result, Some (to_cache result stamp), s')))"

definition checkClaudeCliHealth ::
  "host \<Rightarrow> int \<Rightarrow> int \<Rightarrow> resolve_options option \<Rightarrow> ResolutionCache option \<times> shell_state
     \<Rightarrow> ClaudeCliHealthStatus \<times> ResolutionCache option \<times> shell_state" where
  "checkClaudeCliHealth h now stamp options st =
     (let (resolution, st') = resolveClaudeCli h now stamp options st in (status resolution, st'))"

section \<open>Environment for the CLI (claude/env.ts)\<close>

abbreviation DQ :: char where
  "DQ \<equiv> CHR 0x22"

abbreviation SQ :: char where
  "SQ \<equiv> CHR 0x27"

definition DELIMITER :: string where
  "DELIMITER = ''_CLAUDE_ENV_DELIMITER_''"

definition STRIPPED_ENV_KEYS :: "string list" where
  "STRIPPED_ENV_KEYS =
     [''ANTHROPIC_API_KEY'', ''OPENAI_API_KEY'', ''CLAUDE_CODE_USE_BEDROCK'',
      ''CLAUDE_CODE_USE_VERTEX'']"

text \<open>\<open>s.split(d)\<close> for a non-empty separator string \<open>d\<close>: \<open>acc\<close> holds, reversed, the
  piece being read.\<close>

function split_str :: "string \<Rightarrow> string \<Rightarrow> string \<Rightarrow> string list" where
  "split_str d acc [] = [rev acc]"
| "split_str d acc (c # cs) =
     (if d \<noteq> [] \<and> take (length d) (c # cs) = d
      then rev acc # split_str d [] (drop (length d) (c # cs))
      else split_str d (c # acc) cs)"
  by pat_completeness auto
termination
  by (relation "measure (\<lambda>(d, acc, s). length s)") auto

text \<open>The loop \<open>for (const key of STRIPPED_ENV_KEYS) if (key in env) delete env[key]\<close>.\<close>

fun strip_keys :: "string list \<Rightarrow> jsobj \<Rightarrow> jsobj" where
  "strip_keys [] e = e"
| "strip_keys (key # keys) e =
     strip_keys keys (if e key \<noteq> None then e(key := None) else e)"

text \<open>\<open>parseEnvOutput\<close>: the text between the first two delimiters, cleaned of terminal
  control sequences, split into non-empty lines, each split at its first \<open>=\<close> as in
  \<open>parse_env_line\<close> (the two sources have the same loop body).\<close>

definition parseEnvOutput :: "host \<Rightarrow> string \<Rightarrow> env" where
  "parseEnvOutput h output =
     (case split_str DELIMITER [] output of
        p0 # envSection # others \<Rightarrow>
          if envSection = [] then Map.empty
          else foldl parse_env_line Map.empty
                 (filter (\<lambda>l. l \<noteq> [])
                    (split_on CHR ''\<newline>'' (stripVTControlCharacters h envSection)))
      | _ \<Rightarrow> Map.empty)"

definition getShellExecutable :: "host \<Rightarrow> jsobj \<Rightarrow> string" where
  "getShellExecutable h pe =
     (if platform h = ''win32'' then or_default (pe ''COMSPEC'') ''powershell.exe''
      else or_default (pe ''SHELL'') ''/bin/zsh'')"

definition claude_commonPaths :: "host \<Rightarrow> jsobj \<Rightarrow> string list" where
  "claude_commonPaths h pe =
     [join h [homedir h, ''.local'', ''bin''],
      join h [or_default (pe ''ProgramFiles'') (''C:'' @ BSL # ''Program Files''), ''Claude''],
      join h [or_default (pe ''ProgramFiles(x86)'') (''C:'' @ BSL # ''Program Files (x86)''),
              ''Claude''],
      join h [or_default (pe ''LOCALAPPDATA'') (join h [homedir h, ''AppData'', ''Local'']),
              ''Programs'', ''Claude''],
      join h [or_default (pe ''SystemRoot'') (''C:'' @ BSL # ''Windows''), ''System32''],
      join h [or_default (pe ''SystemRoot'') (''C:'' @ BSL # ''Windows'')]]"

text \<open>The loop over \<open>commonPaths\<close> of claude/env.ts: a candidate is appended, normalized,
  unless \<open>paths.includes(normalizedPath)\<close>.\<close>

fun claude_add_common :: "(string \<Rightarrow> string) \<Rightarrow> string list \<Rightarrow> string list \<Rightarrow> string list" where
  "claude_add_common nrm [] paths = paths"
| "claude_add_common nrm (commonPath # rest) paths =
     (let normalizedPath = nrm commonPath
      in claude_add_common nrm rest
           (if normalizedPath \<notin> set paths then paths @ [normalizedPath] else paths))"

definition claude_path_entries :: "host \<Rightarrow> jsobj \<Rightarrow> string list" where
  "claude_path_entries h pe =
     claude_add_common (normalize h) (claude_commonPaths h pe) (existing_entries pe)"

definition claude_buildWindowsPath :: "host \<Rightarrow> jsobj \<Rightarrow> string" where
  "claude_buildWindowsPath h pe = join_with '';'' (claude_path_entries h pe)"

text \<open>The Windows branch of \<open>getClaudeShellEnvironment\<close>.\<close>

definition claude_windows :: "host \<Rightarrow> jsobj \<Rightarrow> thrown + jsobj" where
  "claude_windows h pe =
     (case userInfo_username h of
        Inl e \<Rightarrow> Inl e
      | Inr user \<Rightarrow>
          Inr (strip_keys STRIPPED_ENV_KEYS
                 (pe(''PATH'' \<mapsto> Str (claude_buildWindowsPath h pe),
                     ''HOME'' \<mapsto> Str (homedir h),
                     ''USER'' \<mapsto> Str user,
                     ''USERPROFILE'' \<mapsto> Str (homedir h)))))"

definition shell_command :: string where
  "shell_command =
     ''echo -n '' @ [DQ] @ DELIMITER @ [DQ] @ ''; env; echo -n '' @ [DQ] @ DELIMITER @ [DQ]
       @ ''; exit''"

text \<open>The \<open>try\<close> block of the macOS/Linux branch.\<close>

definition claude_shell :: "host \<Rightarrow> jsobj \<Rightarrow> thrown + jsobj" where
  "claude_shell h pe =
     (let shell = getShellExecutable h pe in
      case userInfo_username h of
        Inl e \<Rightarrow> Inl e
      | Inr user \<Rightarrow>
          (case execSync h (shell @ '' -lc '' @ [SQ] @ shell_command @ [SQ])
                  \<lparr>o_encoding = Some ''utf8'', o_timeout = Some 5000,
                   o_env = Some [''DISABLE_AUTO_UPDATE'' \<mapsto> Str ''true'',
                                 ''HOME'' \<mapsto> Str (homedir h),
                                 ''USER'' \<mapsto> Str user,
                                 ''SHELL'' \<mapsto> Str shell],
                   o_cwd = None\<rparr> of
             Inl e \<Rightarrow> Inl e
           | Inr output \<Rightarrow>
               Inr (strip_keys STRIPPED_ENV_KEYS (to_obj (parseEnvOutput h output)))))"

text \<open>The \<open>catch\<close> block: the minimal environment. It reads \<open>os.userInfo()\<close> again.\<close>

definition claude_fallback :: "host \<Rightarrow> jsobj \<Rightarrow> thrown + jsobj" where
  "claude_fallback h pe =
     (let home = homedir h;
          pathSeparator = (if platform h = ''win32'' then '';'' else '':'');
          fallbackPathParts =
            (if platform h = ''win32''
             then [join h [home, ''.local'', ''bin''],
                   join h [or_default (pe ''ProgramFiles'') (''C:'' @ BSL # ''Program Files''),
                           ''Claude''],
                   join h [or_default (pe ''LOCALAPPDATA'') (join h [home, ''AppData'', ''Local'']),
                           ''Programs'', ''Claude''],
                   join h [or_default (pe ''ProgramFiles(x86)'')
                             (''C:'' @ BSL # ''Program Files (x86)''), ''Claude''],
                   join h [or_default (pe ''SystemRoot'') (''C:'' @ BSL # ''Windows''),
                           ''System32'']]
             else [home @ ''/.local/bin'', ''/opt/homebrew/bin'', ''/usr/local/bin'',
                   ''/usr/bin'', ''/bin'', ''/usr/sbin'', ''/sbin'']);
          fallbackPath = join_with pathSeparator fallbackPathParts
      in case userInfo_username h of
           Inl e \<Rightarrow> Inl e
         | Inr user \<Rightarrow>
             (let fallback =
                    [''HOME'' \<mapsto> Str home,
                     ''USER'' \<mapsto> Str user,
                     ''PATH'' \<mapsto> Str fallbackPath,
                     ''SHELL'' \<mapsto> Str (getShellExecutable h pe),
                     ''TERM'' \<mapsto> (if platform h = ''win32'' then Undefined
                                     else Str ''xterm-256color'')]
              in Inr (if platform h = ''win32''
                      then fallback(''USERPROFILE'' \<mapsto> Str home,
                                    ''SystemRoot'' \<mapsto>
                                       Str (or_default (pe ''SystemRoot'') (''C:'' @ BSL # ''Windows'')))
                      else fallback)))"

text \<open>\<open>getClaudeShellEnvironment\<close>: \<open>pe\<close> is \<open>process.env\<close>, the state is the module's
  \<open>cachedShellEnv\<close>. A call that throws leaves the cache as it was.\<close>

definition getClaudeShellEnvironment ::
  "host \<Rightarrow> jsobj \<Rightarrow> jsobj option \<Rightarrow> thrown + (jsobj \<times> jsobj option)" where
  "getClaudeShellEnvironment h pe cachedShellEnv =
     (case cachedShellEnv of
        Some cached \<Rightarrow> Inr (cached, cachedShellEnv)
      | None \<Rightarrow>
          if platform h = ''win32'' then
            (case claude_windows h pe of
               Inl e \<Rightarrow> Inl e
             | Inr env \<Rightarrow> Inr (env, Some env))
          else
            (case claude_shell h pe of
               Inr env \<Rightarrow> Inr (env, Some env)
             | Inl err \<Rightarrow>
                 (case claude_fallback h pe of
                    Inl e \<Rightarrow> Inl e
                  | Inr fallback \<Rightarrow> Inr (fallback, Some fallback))))"

definition clearClaudeEnvCache :: "jsobj option \<Rightarrow> jsobj option" where
  "clearClaudeEnvCache c = None"

record build_options =
  ghToken :: "string option"
  customEnv :: "env option"

text \<open>Step 1 of \<open>buildClaudeEnv\<close>: \<open>Object.assign(env, source)\<close> assigns every property
  of the source to \<open>env\<close>.\<close>

definition object_assign :: "jsobj \<Rightarrow> jsobj \<Rightarrow> jsobj" where
  "object_assign env source =
     (\<lambda>k. case source k of Some v \<Rightarrow> assign env k v k | None \<Rightarrow> env k)"

text \<open>Step 2: every entry of \<open>process.env\<close> that is not \<open>undefined\<close> is assigned over
  the entry of the shell environment.\<close>

definition overlay_process_env :: "jsobj \<Rightarrow> jsobj \<Rightarrow> jsobj" where
  "overlay_process_env env pe =
     (\<lambda>k. case pe k of Some (Str v) \<Rightarrow> assign env k (Str v) k | _ \<Rightarrow> env k)"

text \<open>Step 3: the variables that must be present. Reading the user name can throw.\<close>

definition ensure_critical :: "host \<Rightarrow> jsobj \<Rightarrow> jsobj \<Rightarrow> thrown + jsobj" where
  "ensure_critical h pe env =
     (let e1 = (if \<not> truthy (env ''HOME'') then env(''HOME'' \<mapsto> Str (homedir h)) else env) in
      case (if \<not> truthy (e1 ''USER'')
            then (case userInfo_username h of
                    Inl t \<Rightarrow> Inl t
                  | Inr user \<Rightarrow> Inr (e1(''USER'' \<mapsto> Str user)))
            else Inr e1) of
        Inl t \<Rightarrow> Inl t
      | Inr e2 \<Rightarrow>
          (let e3 = (if \<not> truthy (e2 ''SHELL'')
                     then e2(''SHELL'' \<mapsto> Str (getShellExecutable h pe)) else e2);
               e4 = (if \<not> truthy (e3 ''TERM'') \<and> platform h \<noteq> ''win32''
                     then e3(''TERM'' \<mapsto> Str ''xterm-256color'') else e3)
           in Inr (if platform h = ''win32'' then
                     (let e5 = (if \<not> truthy (e4 ''USERPROFILE'')
                                then e4(''USERPROFILE'' \<mapsto> Str (homedir h)) else e4)
                      in if \<not> truthy (e5 ''SystemRoot'')
                         then e5(''SystemRoot'' \<mapsto>
                                   Str (or_default (pe ''SystemRoot'') (''C:'' @ BSL # ''Windows'')))
                         else e5)
                   else e4)))"

text \<open>Step 4: the token and the custom overrides; an override with the empty string
  deletes the key, any other is assigned.\<close>

definition apply_custom :: "build_options option \<Rightarrow> jsobj \<Rightarrow> jsobj" where
  "apply_custom options env =
     (case options of
        None \<Rightarrow> env
      | Some opts \<Rightarrow>
          (let e1 = (if is_set (ghToken opts) then env(''GH_TOKEN'' \<mapsto> Str (the (ghToken opts)))
                     else env)
           in case customEnv opts of
                None \<Rightarrow> e1
              | Some custom \<Rightarrow>
                  (\<lambda>k. case custom k of
                         None \<Rightarrow> e1 k
                       | Some v \<Rightarrow> if v = [] then None else assign e1 k (Str v) k)))"

definition buildClaudeEnv ::
  "host \<Rightarrow> jsobj \<Rightarrow> build_options option \<Rightarrow> jsobj option \<Rightarrow> thrown + (jsobj \<times> jsobj option)" where
  "buildClaudeEnv h pe options cachedShellEnv =
     (let (env0, cache') =
            (case getClaudeShellEnvironment h pe cachedShellEnv of
               Inr (shellEnv, c) \<Rightarrow> (object_assign Map.empty shellEnv, c)
             | Inl err \<Rightarrow> (Map.empty, cachedShellEnv));
          shellPath = env0 ''PATH'';
          env1 = overlay_process_env env0 pe;
          env2 = (if truthy shellPath then env1(''PATH'' := shellPath) else env1)
      in case ensure_critical h pe env2 of
           Inl t \<Rightarrow> Inl t
         | Inr env3 \<Rightarrow>
             Inr ((apply_custom options env3)(''CLAUDE_CODE_ENTRYPOINT'' \<mapsto> Str ''sdk-ts''),
                  cache'))"

section \<open>Notions used in the statements\<close>

text \<open>The cache of shell-env.ts does not answer a call made at time \<open>now\<close>.\<close>

definition cache_miss :: "int \<Rightarrow> shell_state \<Rightarrow> bool" where
  "cache_miss now s \<longleftrightarrow>
     cachedEnv s = None \<or> \<not> now - cacheTime s < (if isFallbackCache s then 10000 else 60000)"

text \<open>The line \<open>l\<close> is \<open>k=v\<close> with a non-empty key \<open>k\<close> that has no \<open>=\<close>.\<close>

definition env_line :: "string \<Rightarrow> string \<Rightarrow> string \<Rightarrow> bool" where
  "env_line k v l \<longleftrightarrow> l = k @ CHR ''='' # v \<and> k \<noteq> [] \<and> CHR ''='' \<notin> set k"

text \<open>The three syntactic checks of \<open>validateCliPath\<close> pass.\<close>

definition passes_syntax :: "host \<Rightarrow> string \<Rightarrow> bool" where
  "passes_syntax h p \<longleftrightarrow>
     isAbsolute h p \<and> normalize h p = p \<and>
     \<not> list_ex (\<lambda>part. part = ''..'' \<or> part = ''.'') (split_on (sep h) p)"

text \<open>The condition under which \<open>execWithShellEnv\<close> starts its self-healing cycle.\<close>

definition eligible :: "host \<Rightarrow> shell_state \<Rightarrow> thrown \<Rightarrow> bool" where
  "eligible h s e \<longleftrightarrow>
     platform h = ''darwin'' \<and> \<not> pathFixSucceeded s \<and> \<not> pathFixAttempted s \<and> is_ENOENT e"

text \<open>The options of the retried run.\<close>

definition retry_options :: "env \<Rightarrow> exec_options option \<Rightarrow> exec_options" where
  "retry_options shellEnv options =
     (with_utf8 options)\<lparr>o_env := Some (retryEnv shellEnv options)\<rparr>"

text \<open>How many environment derivations and how many runs of a command a trace holds.\<close>

definition derivations :: "event list \<Rightarrow> nat" where
  "derivations tr = length (filter (\<lambda>ev. ev = Derive) tr)"

definition runs :: "event list \<Rightarrow> nat" where
  "runs tr = length (filter (\<lambda>ev. ev \<noteq> Derive) tr)"

text \<open>The call does not answer from the resolution cache.\<close>

definition resolving :: "resolve_options option \<Rightarrow> ResolutionCache option \<Rightarrow> bool" where
  "resolving options cache \<longleftrightarrow> skipCache (with_defaults options) \<or> cache = None"

text \<open>\<open>needle\<close> occurs in the text.\<close>

fun mentions :: "string \<Rightarrow> string \<Rightarrow> bool" where
  "mentions needle [] = (needle = [])"
| "mentions needle (c # cs) = (take (length needle) (c # cs) = needle \<or> mentions needle cs)"

text \<open>The shape of a resolution: no path exactly when the status is \<open>MISSING\<close>; with
  \<open>OK\<close> a compatible version and no error; with \<open>VALIDATION_ERROR\<close> or
  \<open>VERSION_INCOMPATIBLE\<close> a path and a non-empty error message.\<close>

definition shape_ok :: "'a ClaudeCliResolution_scheme \<Rightarrow> bool" where
  "shape_ok r \<longleftrightarrow>
     ((path r = None) = (status r = MISSING))
   \<and> (status r = OK \<longrightarrow>
        (case cli_version r of Some v \<Rightarrow> isCompatible v | None \<Rightarrow> False) \<and> error r = None)
   \<and> (status r = VALIDATION_ERROR \<or> status r = VERSION_INCOMPATIBLE \<longrightarrow>
        path r \<noteq> None \<and> is_set (error r))"

definition cache_shape_ok :: "ResolutionCache option \<Rightarrow> bool" where
  "cache_shape_ok cache = (case cache of None \<Rightarrow> True | Some c \<Rightarrow> shape_ok c)"

text \<open>A history of the resolver module: calls of \<open>resolveClaudeCli\<close>, each on its host and
  at its time, calls of \<open>clearResolutionCache\<close>, and whatever else changes the state of
  shell-env.ts in between.\<close>

datatype call =
  Resolve host int int "resolve_options option"
| ClearResolution
| ShellChange "shell_state \<Rightarrow> shell_state"

fun run_calls ::
  "call list \<Rightarrow> ResolutionCache option \<times> shell_state
     \<Rightarrow> ClaudeCliResolution list \<times> ResolutionCache option \<times> shell_state" where
  "run_calls [] st = ([], st)"
| "run_calls (Resolve h now stamp options # cs) st =
     (let (r, st') = resolveClaudeCli h now stamp options st;
          (rs, st'') = run_calls cs st'
      in (r # rs, st''))"
| "run_calls (ClearResolution # cs) st = run_calls cs (clearResolutionCache (fst st), snd st)"
| "run_calls (ShellChange f # cs) st = run_calls cs (fst st, f (snd st))"

text \<open>None of the keys of \<open>STRIPPED_ENV_KEYS\<close> is in the map.\<close>

definition sensitive_free :: "jsobj \<Rightarrow> bool" where
  "sensitive_free m = list_all (\<lambda>k. m k = None) STRIPPED_ENV_KEYS"

definition cache_stripped :: "jsobj option \<Rightarrow> bool" where
  "cache_stripped c = (case c of None \<Rightarrow> True | Some m \<Rightarrow> sensitive_free m)"

text \<open>The caller of \<open>buildClaudeEnv\<close> supplies the key itself: \<open>process.env\<close> holds a string
  for it, or the custom overrides give it a non-empty value.\<close>

definition supplied :: "jsobj \<Rightarrow> build_options option \<Rightarrow> string \<Rightarrow> bool" where
  "supplied pe options k =
     ((case pe k of Some (Str v) \<Rightarrow> True | _ \<Rightarrow> False)
      \<or> (case options of
            None \<Rightarrow> False
          | Some opts \<Rightarrow>
              (case customEnv opts of
                 None \<Rightarrow> False
               | Some custom \<Rightarrow> (case custom k of Some v \<Rightarrow> v \<noteq> [] | None \<Rightarrow> False))))"

text \<open>The keys that \<open>buildClaudeEnv\<close> assigns by name.\<close>

definition touched_keys :: "string list" where
  "touched_keys = [''PATH'', ''HOME'', ''USER'', ''SHELL'', ''TERM'', ''USERPROFILE'',
     ''SystemRoot'', ''GH_TOKEN'', ''CLAUDE_CODE_ENTRYPOINT'']"

text \<open>A history of the module claude/env.ts, each call in its process environment, and
  what a call of the history has to return.\<close>

datatype env_call =
  GetShellEnv host jsobj
| BuildEnv host jsobj "build_options option"
| ClearEnvCache

fun env_run ::
  "env_call list \<Rightarrow> jsobj option \<Rightarrow> (env_call \<times> (thrown + jsobj)) list \<times> jsobj option" where
  "env_run [] c = ([], c)"
| "env_run (GetShellEnv h pe # cs) c =
     (case getClaudeShellEnvironment h pe c of
        Inl e \<Rightarrow> (let (rs, c'') = env_run cs c in ((GetShellEnv h pe, Inl e) # rs, c''))
      | Inr (m, c') \<Rightarrow> (let (rs, c'') = env_run cs c' in ((GetShellEnv h pe, Inr m) # rs, c'')))"
| "env_run (BuildEnv h pe options # cs) c =
     (case buildClaudeEnv h pe options c of
        Inl e \<Rightarrow> (let (rs, c'') = env_run cs c in ((BuildEnv h pe options, Inl e) # rs, c''))
      | Inr (m, c') \<Rightarrow>
          (let (rs, c'') = env_run cs c' in ((BuildEnv h pe options, Inr m) # rs, c'')))"
| "env_run (ClearEnvCache # cs) c = env_run cs (clearClaudeEnvCache c)"

fun result_ok :: "env_call \<times> (thrown + jsobj) \<Rightarrow> bool" where
  "result_ok (GetShellEnv h pe, Inr m) = sensitive_free m"
| "result_ok (BuildEnv h pe options, Inr m) =
     list_all (\<lambda>k. m k \<noteq> None \<longrightarrow> supplied pe options k) STRIPPED_ENV_KEYS"
| "result_ok (c, r) = True"

text \<open>The values of the module variables of shell-env.ts when the module is loaded, in a
  process whose environment is \<open>pe\<close>.\<close>

definition module_init :: "jsobj \<Rightarrow> shell_state" where
  "module_init pe =
     \<lparr>process_env = pe, cachedEnv = None, cacheTime = 0, isFallbackCache = False,
      pathFixAttempted = False, pathFixSucceeded = False\<rparr>"

section \<open>Concrete hosts\<close>

text \<open>
  A Linux machine with the CLI at \<open>/usr/bin/claude\<close> (a regular file, mode 0755, version
  2.1.5), a text file of mode 0644, a directory \<open>/root\<close> that \<open>stat\<close> may not search, and
  nothing else. Its path functions are those of \<open>path.posix\<close> restricted to
  absolute paths without \<open>.\<close>, \<open>..\<close> or doubled separators, which \<open>normalize\<close> and
  \<open>resolve\<close> return unchanged (\<open>normalize\<close> turns the empty path into \<open>.\<close>).
  \<open>/bin/true\<close> prints nothing, whatever its arguments.
\<close>

definition linux_exec :: exec_fn where
  "linux_exec cmd args opts =
     (if cmd = ''which'' \<and> args = [''claude''] then Inr (''/usr/bin/claude\<newline>'', [])
      else if cmd = ''/usr/bin/claude'' \<and> args = [''--version'']
           then Inr (''2.1.5 (Claude Code)\<newline>'', [])
      else if cmd = ''/bin/bash'' \<and> args = [''-lc'', ''env'']
           then Inr (''PATH=/usr/local/bin:/usr/bin\<newline>HOME=/home/u\<newline>'', [])
      else if cmd = ''/bin/true'' then Inr ([], [])
      else Inl (ErrorObj (Some ''ENOENT'') (''spawn '' @ cmd @ '' ENOENT'')))"

definition linux_stat :: "string \<Rightarrow> thrown + Stats" where
  "linux_stat p =
     (if p = ''/usr/bin/claude'' then Inr \<lparr>isFile = True, mode = 33261\<rparr>
      else if p = ''/usr/bin'' then Inr \<lparr>isFile = False, mode = 16877\<rparr>
      else if p = ''/usr/share/claude.txt'' then Inr \<lparr>isFile = True, mode = 33188\<rparr>
      else if p = ''/root/claude''
           then Inl (ErrorObj (Some ''EACCES'') (''EACCES: permission denied, stat '' @ p))
      else Inl (ErrorObj (Some ''ENOENT'') (''ENOENT: no such file or directory, stat '' @ p)))"

text \<open>What the login shell of that machine prints for the command of claude/env.ts;
  the user's profile exports an API key.\<close>

definition linux_dump :: string where
  "linux_dump =
     DELIMITER
     @ ''PATH=/usr/local/bin:/usr/bin\<newline>HOME=/home/u\<newline>ANTHROPIC_API_KEY=sk-ant-1\<newline>''
     @ DELIMITER"

definition linux_host :: host where
  "linux_host =
     \<lparr>platform = ''linux'', homedir = ''/home/u'', userInfo_username = Inr ''u'',
      isAbsolute = (\<lambda>p. case p of [] \<Rightarrow> False | c # cs \<Rightarrow> c = CHR ''/''),
      normalize = (\<lambda>p. if p = [] then ''.'' else p), resolve = (\<lambda>p. p),
      join = join_with ''/'', sep = CHR ''/'',
      stat = linux_stat, existsSync = (\<lambda>p. p = ''/usr/bin/claude'' \<or> p = ''/usr/bin''),
      execFile = linux_exec,
      execSync = (\<lambda>command opts. Inr linux_dump),
      stripVTControlCharacters = (\<lambda>s. s)\<rparr>"

text \<open>The same machine without the CLI and without any command to spawn.\<close>

definition bare_host :: host where
  "bare_host = linux_host\<lparr>
     stat := (\<lambda>p. Inl (ErrorObj (Some ''ENOENT'') (''ENOENT: no such file or directory, stat '' @ p))),
     existsSync := (\<lambda>p. False),
     execFile := (\<lambda>cmd args opts. Inl (ErrorObj (Some ''ENOENT'') (''spawn '' @ cmd @ '' ENOENT''))),
     execSync := (\<lambda>command opts. Inl (ErrorObj None ''Command failed''))\<rparr>"

text \<open>A macOS machine started from the Finder: \<open>git\<close> is not on the \<open>PATH\<close> of the
  process, the login shell knows the Homebrew directory, and a run with that \<open>PATH\<close>
  finds \<open>git\<close>.\<close>

definition darwin_exec :: exec_fn where
  "darwin_exec cmd args opts =
     (if cmd = ''/bin/zsh'' \<and> args = [''-lc'', ''env'']
      then Inr (''PATH=/opt/homebrew/bin:/usr/bin:/bin\<newline>HOME=/Users/u\<newline>'', [])
      else Inl (ErrorObj (Some ''ENOENT'') (''spawn '' @ cmd @ '' ENOENT'')))"

definition darwin_retry :: exec_fn where
  "darwin_retry cmd args opts =
     (if cmd = ''git'' then Inr (''git version 2.44.0\<newline>'', [])
      else Inl (ErrorObj (Some ''ENOENT'') (''spawn '' @ cmd @ '' ENOENT'')))"

definition darwin_host :: host where
  "darwin_host = linux_host\<lparr>platform := ''darwin'', homedir := ''/Users/u'',
     execFile := darwin_exec\<rparr>"

text \<open>Options of a caller that sets variables of its own, a \<open>PATH\<close> among them.\<close>

definition git_options :: exec_options where
  "git_options =
     \<lparr>o_encoding = None, o_timeout = Some 5000,
      o_env = Some [''GIT_TERMINAL_PROMPT'' \<mapsto> Str ''0'', ''PATH'' \<mapsto> Str ''/usr/bin:/bin''],
      o_cwd = None\<rparr>"

text \<open>A Windows machine. \<open>path.win32.join\<close> puts a backslash between its arguments and
  \<open>path.win32.normalize\<close> returns its argument on the paths used here, which have single
  backslashes and no \<open>.\<close> or \<open>..\<close>.\<close>

definition win_path :: "string list \<Rightarrow> string" where
  "win_path parts = join_with [BSL] parts"

definition win_host :: host where
  "win_host = linux_host\<lparr>platform := ''win32'',
     homedir := win_path [''C:'', ''Users'', ''u''],
     join := win_path, sep := BSL\<rparr>"

text \<open>The environment of a Windows process as the system sets it: the system
  directory is written with a small \<open>s\<close> in \<open>system32\<close>, and \<open>SystemRoot\<close> in capitals.\<close>

definition win_env :: jsobj where
  "win_env =
     [''PATH'' \<mapsto> Str (win_path [''C:'', ''WINDOWS'', ''system32''] @ '';''
                          @ win_path [''C:'', ''WINDOWS'']),
      ''SystemRoot'' \<mapsto> Str (win_path [''C:'', ''WINDOWS''])]"

section \<open>Properties\<close>

lemma minParts_eq: "minParts = [2, 0, 0]"
  by (simp add: minParts_def MINIMUM_CLAUDE_VERSION_def parseInt_def digit_val_def)

subsection \<open>Decimal rendering and parsing of version numbers\<close>

lemma is_digit_char_of: "d < 10 \<Longrightarrow> is_digit (char_of (48 + d :: nat))"
  by (simp add: is_digit_def)

lemma digit_val_char_of: "d < 10 \<Longrightarrow> digit_val (char_of (48 + d :: nat)) = d"
  by (simp add: digit_val_def)

lemma show_nat_digits: "\<forall>c \<in> set (show_nat n). is_digit c"
proof (induction n rule: show_nat.induct)
  case (1 n)
  show ?case
  proof (cases "n < 10")
    case True
    then show ?thesis by (subst show_nat.simps) (simp add: is_digit_char_of)
  next
    case False
    with 1 show ?thesis by (subst show_nat.simps) (simp add: is_digit_char_of)
  qed
qed

lemma show_nat_nonempty: "show_nat n \<noteq> []"
  by (subst show_nat.simps) simp

lemma parseInt_snoc: "parseInt (ds @ [c]) = 10 * parseInt ds + digit_val c"
  by (simp add: parseInt_def)

lemma parseInt_show_nat: "parseInt (show_nat n) = n"
proof (induction n rule: show_nat.induct)
  case (1 n)
  show ?case
  proof (cases "n < 10")
    case True
    then show ?thesis
      by (subst show_nat.simps) (simp add: parseInt_def digit_val_char_of)
  next
    case False
    with 1 have "parseInt (show_nat (n div 10)) = n div 10" by simp
    with False show ?thesis
      by (subst show_nat.simps) (simp add: parseInt_snoc digit_val_char_of)
  qed
qed

lemma not_digit_dot: "\<not> is_digit CHR ''.''"
  by (simp add: is_digit_def)

lemma takeWhile_show_nat: "takeWhile is_digit (show_nat n @ CHR ''.'' # r) = show_nat n"
  using show_nat_digits [of n] by (simp add: takeWhile_tail not_digit_dot)

lemma dropWhile_show_nat: "dropWhile is_digit (show_nat n @ CHR ''.'' # r) = CHR ''.'' # r"
  using show_nat_digits [of n] by (simp add: dropWhile_append3 not_digit_dot)

lemma takeWhile_show_nat_end: "takeWhile is_digit (show_nat n) = show_nat n"
  using show_nat_digits [of n] by simp

lemma match_here_render:
  "match_here (show_nat a @ CHR ''.'' # show_nat b @ CHR ''.'' # show_nat c)
     = Some (show_nat a, show_nat b, show_nat c)"
  by (simp add: match_here_def Let_def takeWhile_show_nat dropWhile_show_nat
      takeWhile_show_nat_end show_nat_nonempty)

lemma version_match_render:
  "version_match (show_nat a @ CHR ''.'' # show_nat b @ CHR ''.'' # show_nat c)
     = Some (show_nat a, show_nat b, show_nat c)"
proof -
  obtain x xs where "show_nat a = x # xs"
    using show_nat_nonempty [of a] by (cases "show_nat a") auto
  then show ?thesis
    using match_here_render [of a b c] by simp
qed

lemma parseVersion_render:
  "parseVersion (show_nat a @ ''.'' @ show_nat b @ ''.'' @ show_nat c) =
     Some \<lparr> version = show_nat a @ ''.'' @ show_nat b @ ''.'' @ show_nat c,
            major = a, minor = b, patch = c,
            isCompatible = ((2, 0, 0) \<le> (a, b, c)) \<rparr>"
  using version_match_render [of a b c]
  by (auto simp: parseVersion_def Let_def parseInt_show_nat minParts_eq less_eq_prod_def)

subsection \<open>Version compatibility\<close>

text \<open>
  C4: for every version that \<open>parseVersion\<close> returns, \<open>isCompatible\<close> holds exactly
  when the triple (major, minor, patch) is at least (2, 0, 0) in the lexicographic order
  (major first, then minor, then patch); the versions 2.0.0, 2.0.1, 2.1.0 and 3.0.0 are
  compatible, 1.9.9 and 1.99.99 are not.
\<close>

theorem parseVersion_isCompatible_lex:
  "(parseVersion out = Some v \<longrightarrow>
      (isCompatible v \<longleftrightarrow> (2, 0, 0) \<le> (major v, minor v, patch v)))
   \<and> map_option isCompatible (parseVersion ''2.0.0'') = Some True
   \<and> map_option isCompatible (parseVersion ''2.0.1'') = Some True
   \<and> map_option isCompatible (parseVersion ''2.1.0'') = Some True
   \<and> map_option isCompatible (parseVersion ''3.0.0'') = Some True
   \<and> map_option isCompatible (parseVersion ''1.9.9'') = Some False
   \<and> map_option isCompatible (parseVersion ''1.99.99'') = Some False"
proof -
  have gen: "parseVersion out = Some v \<longrightarrow>
      (isCompatible v \<longleftrightarrow> (2, 0, 0) \<le> (major v, minor v, patch v))"
    by (auto simp: parseVersion_def minParts_eq less_eq_prod_def Let_def
        split: option.splits prod.splits)
  have ex: "map_option isCompatible (parseVersion ''2.0.0'') = Some True"
    "map_option isCompatible (parseVersion ''2.0.1'') = Some True"
    "map_option isCompatible (parseVersion ''2.1.0'') = Some True"
    "map_option isCompatible (parseVersion ''3.0.0'') = Some True"
    "map_option isCompatible (parseVersion ''1.9.9'') = Some False"
    "map_option isCompatible (parseVersion ''1.99.99'') = Some False"
    by (simp_all add: parseVersion_def minParts_eq match_here_def is_digit_def
        parseInt_def digit_val_def Let_def)
  from gen ex show ?thesis by blast
qed

theorem parseVersion_isCompatible_lex_witness:
  "parseVersion ''claude 2.1.5'' =
      Some \<lparr> version = ''2.1.5'', major = 2, minor = 1, patch = 5, isCompatible = True \<rparr>
   \<and> (2, 0, 0) \<le> (2 :: nat, 1 :: nat, 5 :: nat)"
proof -
  have p: "parseVersion ''claude 2.1.5'' =
      Some \<lparr> version = ''2.1.5'', major = 2, minor = 1, patch = 5, isCompatible = True \<rparr>"
    by code_simp
  from parseVersion_isCompatible_lex
    [of "''claude 2.1.5''" "\<lparr> version = ''2.1.5'', major = 2, minor = 1, patch = 5, isCompatible = True \<rparr>"]
    p show ?thesis by simp
qed

subsection \<open>Path validation\<close>

text \<open>
  C3: \<open>validateCliPath\<close> applies its checks in order and stops at the first that fails:
  a path that is not absolute, one that differs from its normalized form, one with a
  segment \<open>.\<close> or \<open>..\<close>, one that does not exist, one that is not a regular file and,
  off Windows, one without the owner-execute bit are each rejected with their own
  reason; an absolute, existing, executable regular file gives \<open>null\<close>; any other
  file-system error becomes the reason \<open>Validation error: <message>\<close> and is never thrown.
\<close>

theorem validateCliPath_checks:
  "(\<not> isAbsolute h p \<longrightarrow> validateCliPath h p = Some ''CLI path must be absolute'')
 \<and> (isAbsolute h p \<and> normalize h p \<noteq> p \<longrightarrow>
       validateCliPath h p = Some ''CLI path contains invalid characters or redundant separators'')
 \<and> (isAbsolute h p \<and> normalize h p = p \<and>
       (\<exists>part \<in> set (split_on (sep h) p). part = ''..'' \<or> part = ''.'') \<longrightarrow>
       validateCliPath h p = Some ''CLI path cannot contain directory traversal (.. or .)'')
 \<and> (passes_syntax h p \<and> stat h p = Inl e \<and> thrown_code e = Some ''ENOENT'' \<longrightarrow>
       validateCliPath h p = Some ''CLI path does not exist'')
 \<and> (passes_syntax h p \<and> stat h p = Inl e \<and> thrown_code e \<noteq> Some ''ENOENT'' \<longrightarrow>
       validateCliPath h p = Some (''Validation error: '' @ thrown_text e))
 \<and> (passes_syntax h p \<and> stat h p = Inr st \<and> \<not> isFile st \<longrightarrow>
       validateCliPath h p = Some ''CLI path must point to a file, not a directory'')
 \<and> (passes_syntax h p \<and> stat h p = Inr st \<and> isFile st \<and> platform h \<noteq> ''win32''
        \<and> (mode st AND S_IXUSR) = 0 \<longrightarrow>
       validateCliPath h p = Some ''CLI path is not executable'')
 \<and> (passes_syntax h p \<and> stat h p = Inr st \<and> isFile st
        \<and> (platform h = ''win32'' \<or> (mode st AND S_IXUSR) \<noteq> 0) \<longrightarrow>
       validateCliPath h p = None)
 \<and> ((\<exists>part \<in> set (split_on (sep h) p). part = ''..'' \<or> part = ''.'') \<longrightarrow>
       validateCliPath h p \<noteq> None)
 \<and> distinct [''CLI path must be absolute'',
       ''CLI path contains invalid characters or redundant separators'',
       ''CLI path cannot contain directory traversal (.. or .)'',
       ''CLI path does not exist'',
       ''CLI path must point to a file, not a directory'',
       ''CLI path is not executable'']
 \<and> (\<forall>msg. ''CLI path does not exist'' \<noteq> ''Validation error: '' @ msg)"
  by (auto simp: validateCliPath_def validate_body_def validate_stat_def passes_syntax_def
      Let_def list_ex_iff split: sum.splits)

theorem validateCliPath_checks_witness:
  "passes_syntax linux_host ''/usr/bin/claude''
 \<and> stat linux_host ''/usr/bin/claude'' = Inr \<lparr>isFile = True, mode = 33261\<rparr>
 \<and> (33261 AND S_IXUSR) \<noteq> (0 :: nat)
 \<and> validateCliPath linux_host ''/usr/bin/claude'' = None
 \<and> validateCliPath linux_host ''/usr/share/claude.txt'' = Some ''CLI path is not executable''
 \<and> validateCliPath linux_host ''/usr/bin'' = Some ''CLI path must point to a file, not a directory''
 \<and> validateCliPath linux_host ''/opt/claude'' = Some ''CLI path does not exist''
 \<and> validateCliPath linux_host ''/root/claude'' =
       Some ''Validation error: EACCES: permission denied, stat /root/claude''
 \<and> validateCliPath linux_host ''bin/claude'' = Some ''CLI path must be absolute''"
proof -
  have syn: "passes_syntax linux_host ''/usr/bin/claude''" "passes_syntax linux_host ''/usr/bin''"
    "passes_syntax linux_host ''/opt/claude''" "\<not> isAbsolute linux_host ''bin/claude''"
    "passes_syntax linux_host ''/usr/share/claude.txt''" "passes_syntax linux_host ''/root/claude''"
    by (simp_all add: passes_syntax_def linux_host_def)
  have st: "stat linux_host ''/usr/bin/claude'' = Inr \<lparr>isFile = True, mode = 33261\<rparr>"
    "stat linux_host ''/usr/bin'' = Inr \<lparr>isFile = False, mode = 16877\<rparr>"
    "stat linux_host ''/opt/claude'' =
       Inl (ErrorObj (Some ''ENOENT'') ''ENOENT: no such file or directory, stat /opt/claude'')"
    "stat linux_host ''/usr/share/claude.txt'' = Inr \<lparr>isFile = True, mode = 33188\<rparr>"
    "stat linux_host ''/root/claude'' =
       Inl (ErrorObj (Some ''EACCES'') ''EACCES: permission denied, stat /root/claude'')"
    by (simp_all add: linux_host_def linux_stat_def)
  have x: "(33261 AND S_IXUSR) \<noteq> (0 :: nat)" "(33188 AND S_IXUSR) = (0 :: nat)"
    by (simp_all add: S_IXUSR_def)
  have pl: "platform linux_host \<noteq> ''win32''" by (simp add: linux_host_def)
  note a = validateCliPath_checks [of linux_host "''/usr/bin/claude''" _ "\<lparr>isFile = True, mode = 33261\<rparr>"]
  note b = validateCliPath_checks [of linux_host "''/usr/bin''" _ "\<lparr>isFile = False, mode = 16877\<rparr>"]
  note c = validateCliPath_checks [of linux_host "''/opt/claude''"
      "ErrorObj (Some ''ENOENT'') ''ENOENT: no such file or directory, stat /opt/claude''"]
  note d = validateCliPath_checks [of linux_host "''bin/claude''"]
  note e = validateCliPath_checks [of linux_host "''/usr/share/claude.txt''" _ "\<lparr>isFile = True, mode = 33188\<rparr>"]
  note f = validateCliPath_checks [of linux_host "''/root/claude''"
      "ErrorObj (Some ''EACCES'') ''EACCES: permission denied, stat /root/claude''"]
  from a syn st x have "validateCliPath linux_host ''/usr/bin/claude'' = None" by simp
  moreover from b syn st have "validateCliPath linux_host ''/usr/bin'' =
      Some ''CLI path must point to a file, not a directory''" by simp
  moreover from c syn st have "validateCliPath linux_host ''/opt/claude'' =
      Some ''CLI path does not exist''" by simp
  moreover from d syn have "validateCliPath linux_host ''bin/claude'' =
      Some ''CLI path must be absolute''" by simp
  moreover from e syn st x pl have "validateCliPath linux_host ''/usr/share/claude.txt'' =
      Some ''CLI path is not executable''" by simp
  moreover from f syn st have "validateCliPath linux_host ''/root/claude'' =
      Some ''Validation error: EACCES: permission denied, stat /root/claude''" by simp
  ultimately show ?thesis using syn st x by simp
qed

subsection \<open>Parsing the lines of an environment dump\<close>

lemma indexOf_ge: "- 1 \<le> indexOf c l"
  by (induction l) (auto simp: Let_def)

lemma indexOf_first: "c \<notin> set k \<Longrightarrow> indexOf c (k @ c # v) = int (length k)"
  by (induction k) (auto simp: Let_def)

lemma indexOf_found:
  "0 \<le> indexOf c l \<Longrightarrow> \<exists>k v. l = k @ c # v \<and> c \<notin> set k \<and> indexOf c l = int (length k)"
proof (induction l)
  case Nil
  then show ?case by simp
next
  case (Cons x xs)
  show ?case
  proof (cases "x = c")
    case True
    then have "x # xs = [] @ c # xs \<and> c \<notin> set [] \<and> indexOf c (x # xs) = int (length ([]::string))"
      by simp
    then show ?thesis by blast
  next
    case False
    with Cons.prems have "0 \<le> indexOf c xs"
      by (auto simp: Let_def split: if_splits)
    with Cons.IH obtain k v where kv: "xs = k @ c # v" "c \<notin> set k" "indexOf c xs = int (length k)"
      by blast
    with False have "x # xs = (x # k) @ c # v \<and> c \<notin> set (x # k)
        \<and> indexOf c (x # xs) = int (length (x # k))"
      by (auto simp: Let_def)
    then show ?thesis by blast
  qed
qed

lemma parse_env_line_entry:
  "k \<noteq> [] \<Longrightarrow> CHR ''='' \<notin> set k \<Longrightarrow> parse_env_line e (k @ CHR ''='' # v) = assign e k v"
  by (simp add: parse_env_line_def indexOf_first Let_def)

lemma parse_env_line_other:
  "\<not> (\<exists>k v. l = k @ CHR ''='' # v \<and> k \<noteq> [] \<and> CHR ''='' \<notin> set k) \<Longrightarrow> parse_env_line e l = e"
proof -
  assume no: "\<not> (\<exists>k v. l = k @ CHR ''='' # v \<and> k \<noteq> [] \<and> CHR ''='' \<notin> set k)"
  have "\<not> 0 < indexOf CHR ''='' l"
  proof
    assume pos: "0 < indexOf CHR ''='' l"
    then obtain k v where kv: "l = k @ CHR ''='' # v" "CHR ''='' \<notin> set k"
        "indexOf CHR ''='' l = int (length k)"
      using indexOf_found [of "CHR ''=''" l] by auto
    with pos have "k \<noteq> []" by auto
    with kv no show False by blast
  qed
  then show ?thesis by (simp add: parse_env_line_def Let_def)
qed

lemma env_line_unique: "env_line k v l \<Longrightarrow> env_line k' v' l \<Longrightarrow> k = k' \<and> v = v'"
proof -
  assume a: "env_line k v l" and b: "env_line k' v' l"
  from a have "indexOf CHR ''='' l = int (length k)"
    by (simp add: env_line_def indexOf_first)
  moreover from b have "indexOf CHR ''='' l = int (length k')"
    by (simp add: env_line_def indexOf_first)
  ultimately have "length k = length k'" by simp
  with a b show ?thesis by (simp add: env_line_def)
qed

lemma foldl_parse_lookup:
  "foldl parse_env_line e ls k = Some v \<Longrightarrow>
     e k = Some v \<or> (k \<noteq> ''__proto__'' \<and> (\<exists>l \<in> set ls. env_line k v l))"
proof (induction ls arbitrary: e)
  case Nil
  then show ?case by simp
next
  case (Cons l ls)
  from Cons.prems have "foldl parse_env_line (parse_env_line e l) ls k = Some v" by simp
  from Cons.IH [OF this] show ?case
  proof
    assume pl: "parse_env_line e l k = Some v"
    show ?thesis
    proof (cases "\<exists>k' v'. env_line k' v' l")
      case True
      then obtain k' v' where kv: "env_line k' v' l" by blast
      then have "parse_env_line e l = assign e k' v'"
        by (auto simp: env_line_def parse_env_line_entry)
      with pl kv show ?thesis by (auto simp: assign_def split: if_splits)
    next
      case False
      then have "parse_env_line e l = e"
        by (intro parse_env_line_other) (auto simp: env_line_def)
      with pl show ?thesis by simp
    qed
  next
    assume "k \<noteq> ''__proto__'' \<and> (\<exists>l \<in> set ls. env_line k v l)"
    then show ?thesis by auto
  qed
qed

lemma dom_parse_env_line:
  "(k \<in> dom (parse_env_line e l)) =
     (k \<in> dom e \<or> (k \<noteq> ''__proto__'' \<and> (\<exists>v. env_line k v l)))"
proof (cases "\<exists>k' v'. env_line k' v' l")
  case True
  then obtain k' v' where kv: "env_line k' v' l" by blast
  then have pl: "parse_env_line e l = assign e k' v'"
    by (simp add: env_line_def parse_env_line_entry)
  have "(\<exists>v. env_line k v l) = (k = k')"
    using kv env_line_unique [OF kv] by blast
  with pl show ?thesis by (auto simp: dom_def assign_def)
next
  case False
  then have "parse_env_line e l = e"
    by (intro parse_env_line_other) (simp add: env_line_def)
  with False show ?thesis by simp
qed

lemma foldl_parse_dom:
  "(k \<in> dom (foldl parse_env_line e ls)) =
     (k \<in> dom e \<or> (k \<noteq> ''__proto__'' \<and> (\<exists>l \<in> set ls. \<exists>v. env_line k v l)))"
proof (induction ls arbitrary: e)
  case Nil
  then show ?case by simp
next
  case (Cons l ls)
  have "(k \<in> dom (foldl parse_env_line e (l # ls))) =
      (k \<in> dom (parse_env_line e l)
       \<or> (k \<noteq> ''__proto__'' \<and> (\<exists>l' \<in> set ls. \<exists>v. env_line k v l')))"
    using Cons.IH [of "parse_env_line e l"] by simp
  also have "\<dots> = ((k \<in> dom e \<or> (k \<noteq> ''__proto__'' \<and> (\<exists>v. env_line k v l)))
      \<or> (k \<noteq> ''__proto__'' \<and> (\<exists>l' \<in> set ls. \<exists>v. env_line k v l')))"
    by (simp only: dom_parse_env_line)
  also have "\<dots> = (k \<in> dom e
      \<or> (k \<noteq> ''__proto__'' \<and> (\<exists>l' \<in> set (l # ls). \<exists>v. env_line k v l')))"
    by auto
  finally show ?case .
qed

lemma parse_env_lines_key:
  "(parse_env_lines ls k \<noteq> None) =
     (k \<noteq> ''__proto__'' \<and> (\<exists>l \<in> set ls. \<exists>v. env_line k v l))"
proof -
  have "(parse_env_lines ls k \<noteq> None) = (k \<in> dom (foldl parse_env_line Map.empty ls))"
    by (simp add: parse_env_lines_def dom_def)
  also have "\<dots> = (k \<noteq> ''__proto__'' \<and> (\<exists>l \<in> set ls. \<exists>v. env_line k v l))"
    by (simp add: foldl_parse_dom)
  finally show ?thesis .
qed

lemma parse_env_lines_value:
  "parse_env_lines ls k = Some v \<Longrightarrow> \<exists>l \<in> set ls. env_line k v l"
proof -
  assume "parse_env_lines ls k = Some v"
  then have "foldl parse_env_line Map.empty ls k = Some v"
    by (simp add: parse_env_lines_def)
  from foldl_parse_lookup [OF this] show ?thesis by simp
qed

lemma parse_env_lines_proto: "parse_env_lines ls ''__proto__'' = None"
  using parse_env_lines_key [of ls "''__proto__''"] by simp

lemma parse_env_lines_proto_example:
  "parse_env_lines (split_on CHR ''\<newline>'' ''PATH=/usr/bin\<newline>__proto__=evil\<newline>'')
     = [''PATH'' \<mapsto> ''/usr/bin'']"
  by (simp add: parse_env_lines_def parse_env_line_def assign_def Let_def)

subsection \<open>The Windows PATH of shell-env.ts\<close>

lemma git_add_common_extends:
  "\<exists>app. git_add_common nrm cs paths = paths @ app \<and> set app \<subseteq> nrm ` set cs"
proof (induction cs arbitrary: paths)
  case Nil
  then show ?case by simp
next
  case (Cons c cs)
  show ?case
  proof (cases "list_ex (\<lambda>p. toLowerCase (nrm p) = toLowerCase (nrm c)) paths")
    case True
    with Cons.IH [of paths] show ?thesis by (auto simp: Let_def)
  next
    case False
    from Cons.IH [of "paths @ [nrm c]"] obtain app where
      "git_add_common nrm cs (paths @ [nrm c]) = (paths @ [nrm c]) @ app" "set app \<subseteq> nrm ` set cs"
      by blast
    with False have "git_add_common nrm (c # cs) paths = paths @ (nrm c # app)
        \<and> set (nrm c # app) \<subseteq> nrm ` set (c # cs)"
      by (auto simp: Let_def)
    then show ?thesis by blast
  qed
qed

lemma git_add_common_nonempty:
  "cs \<noteq> [] \<Longrightarrow> git_add_common nrm cs paths \<noteq> []"
proof (cases cs)
  case Nil
  moreover assume "cs \<noteq> []"
  ultimately show ?thesis by simp
next
  case (Cons c cs')
  show ?thesis
  proof (cases "list_ex (\<lambda>p. toLowerCase (nrm p) = toLowerCase (nrm c)) paths")
    case True
    then have "paths \<noteq> []" by auto
    with git_add_common_extends [of nrm cs paths] show ?thesis by auto
  next
    case False
    with Cons have "git_add_common nrm cs paths = git_add_common nrm cs' (paths @ [nrm c])"
      by (simp add: Let_def)
    with git_add_common_extends [of nrm cs' "paths @ [nrm c]"] show ?thesis by auto
  qed
qed

lemma join_with_empty: "join_with s xs = [] \<Longrightarrow> xs = [] \<or> [] \<in> set xs"
  by (induction s xs rule: join_with.induct) auto

lemma existing_entries_nonempty: "[] \<notin> set (existing_entries pe)"
  by (auto simp: existing_entries_def split: option.splits jsval.splits)

lemma git_buildWindowsPath_nonempty:
  assumes "\<And>p. normalize h p \<noteq> []"
  shows "git_buildWindowsPath h pe \<noteq> []"
proof
  assume "git_buildWindowsPath h pe = []"
  then have "git_path_entries h pe = [] \<or> [] \<in> set (git_path_entries h pe)"
    by (simp add: git_buildWindowsPath_def join_with_empty)
  moreover have "git_path_entries h pe \<noteq> []"
  proof -
    have "git_commonPaths h pe \<noteq> []" by (simp add: git_commonPaths_def)
    then show ?thesis by (simp add: git_path_entries_def git_add_common_nonempty)
  qed
  moreover have "[] \<notin> set (git_path_entries h pe)"
  proof -
    obtain app where "git_path_entries h pe = existing_entries pe @ app"
        "set app \<subseteq> normalize h ` set (git_commonPaths h pe)"
      using git_add_common_extends [of "normalize h" "git_commonPaths h pe" "existing_entries pe"]
      by (auto simp: git_path_entries_def)
    moreover have "[] \<notin> normalize h ` set (git_commonPaths h pe)"
      using assms by (metis imageE)
    ultimately show ?thesis using existing_entries_nonempty [of pe] by auto
  qed
  ultimately show False by blast
qed

text \<open>No entry appended by the loop of shell-env.ts equals, after normalization and case
  folding, an entry that stands before it.\<close>

lemma git_add_common_fresh:
  "j < length (git_add_common nrm cs paths) \<Longrightarrow> length paths \<le> j \<Longrightarrow> i < j \<Longrightarrow>
     toLowerCase (nrm (git_add_common nrm cs paths ! i)) \<noteq> toLowerCase (git_add_common nrm cs paths ! j)"
proof (induction cs arbitrary: paths)
  case Nil
  then show ?case by simp
next
  case (Cons c cs)
  show ?case
  proof (cases "list_ex (\<lambda>p. toLowerCase (nrm p) = toLowerCase (nrm c)) paths")
    case True
    then have "git_add_common nrm (c # cs) paths = git_add_common nrm cs paths"
      by (simp add: Let_def)
    with Cons show ?thesis by simp
  next
    case False
    then have eq: "git_add_common nrm (c # cs) paths = git_add_common nrm cs (paths @ [nrm c])"
      by (simp add: Let_def)
    obtain app where app: "git_add_common nrm cs (paths @ [nrm c]) = (paths @ [nrm c]) @ app"
      using git_add_common_extends [of nrm cs "paths @ [nrm c]"] by blast
    show ?thesis
    proof (cases "j = length paths")
      case True
      with Cons.prems have "i < length paths" by simp
      with True app have "git_add_common nrm cs (paths @ [nrm c]) ! i = paths ! i"
          "git_add_common nrm cs (paths @ [nrm c]) ! j = nrm c"
        by (simp_all add: nth_append)
      moreover from False \<open>i < length paths\<close> have "toLowerCase (nrm (paths ! i)) \<noteq> toLowerCase (nrm c)"
        by (auto simp: list_ex_iff)
      ultimately show ?thesis using eq by simp
    next
      case False
      with Cons.prems have "length (paths @ [nrm c]) \<le> j" by simp
      with Cons.IH [of "paths @ [nrm c]"] Cons.prems eq show ?thesis by simp
    qed
  qed
qed

subsection \<open>The cache and the fallback of getShellEnvironment\<close>

lemma string_entries_lookup:
  "string_entries obj k =
     (if k = ''__proto__'' then None
      else case obj k of Some (Str v) \<Rightarrow> Some v | _ \<Rightarrow> None)"
  by (auto simp: string_entries_def assign_def split: option.splits jsval.splits)

lemma string_entries_eq:
  "string_entries obj =
     (\<lambda>k. if k = ''__proto__'' then None
          else case obj k of Some (Str v) \<Rightarrow> Some v | _ \<Rightarrow> None)"
  by (rule ext) (rule string_entries_lookup)

lemma getShellEnvironment_miss:
  "cache_miss now s \<Longrightarrow> getShellEnvironment h now s =
     (if platform h = ''win32'' then derive_windows h now s else Inr (derive_shell h now s))"
  by (auto simp: getShellEnvironment_def cache_miss_def CACHE_TTL_MS_def FALLBACK_CACHE_TTL_MS_def
      split: option.splits)

lemma getShellEnvironment_hit:
  "cachedEnv s = Some c \<Longrightarrow> now - cacheTime s < (if isFallbackCache s then 10000 else 60000)
   \<Longrightarrow> getShellEnvironment h now s = Inr (c, s)"
  by (auto simp: getShellEnvironment_def CACHE_TTL_MS_def FALLBACK_CACHE_TTL_MS_def)

lemma getShellEnvironment_returns:
  "platform h \<noteq> ''win32'' \<Longrightarrow> \<exists>m s'. getShellEnvironment h now s = Inr (m, s')"
  by (cases "derive_shell h now s")
     (auto simp: getShellEnvironment_def Let_def split: option.splits)

lemma getShellEnvironment_returns_windows:
  "userInfo_username h = Inr u \<Longrightarrow> \<exists>m s'. getShellEnvironment h now s = Inr (m, s')"
  by (cases "derive_shell h now s")
     (auto simp: getShellEnvironment_def derive_windows_def Let_def)

lemma derive_windows_throws:
  "(derive_windows h now s = Inl t) = (userInfo_username h = Inl t)"
  by (cases "userInfo_username h") (simp_all add: derive_windows_def Let_def)

lemma getShellEnvironment_throws:
  "(getShellEnvironment h now s = Inl t) =
     (platform h = ''win32'' \<and> cache_miss now s \<and> userInfo_username h = Inl t)"
proof (cases "cache_miss now s")
  case True
  then show ?thesis
    by (simp add: getShellEnvironment_miss derive_windows_throws)
next
  case False
  then obtain c where "cachedEnv s = Some c"
    "now - cacheTime s < (if isFallbackCache s then 10000 else 60000)"
    by (auto simp: cache_miss_def)
  from getShellEnvironment_hit [OF this] False show ?thesis by simp
qed

lemma getShellEnvironment_fallback:
  "platform h \<noteq> ''win32'' \<Longrightarrow> cache_miss now s \<Longrightarrow> shell_spawn h s = Inl e \<Longrightarrow>
     getShellEnvironment h now s =
       Inr (string_entries (process_env s),
            s\<lparr>cachedEnv := Some (string_entries (process_env s)), cacheTime := now,
              isFallbackCache := True\<rparr>)"
  by (simp add: getShellEnvironment_miss derive_shell_def Let_def)

lemma getShellEnvironment_full:
  "platform h \<noteq> ''win32'' \<Longrightarrow> cache_miss now s \<Longrightarrow> shell_spawn h s = Inr (out, err) \<Longrightarrow>
     getShellEnvironment h now s =
       Inr (parse_env_lines (split_on CHR ''\<newline>'' out),
            s\<lparr>cachedEnv := Some (parse_env_lines (split_on CHR ''\<newline>'' out)),
              cacheTime := now, isFallbackCache := False\<rparr>)"
  by (simp add: getShellEnvironment_miss derive_shell_def Let_def)

lemma cached_answers:
  "later - now < (if fbk then 10000 else 60000) \<Longrightarrow>
     getShellEnvironment h' later
       (s\<lparr>cachedEnv := Some m, cacheTime := now, isFallbackCache := fbk\<rparr>)
     = Inr (m, s\<lparr>cachedEnv := Some m, cacheTime := now, isFallbackCache := fbk\<rparr>)"
  by (rule getShellEnvironment_hit) simp_all

lemma cached_expires:
  "(if fbk then 10000 else 60000) \<le> later - now \<Longrightarrow>
     cache_miss later (s\<lparr>cachedEnv := Some m, cacheTime := now, isFallbackCache := fbk\<rparr>)"
  by (auto simp: cache_miss_def)

text \<open>
  C6, as the code has it. On every platform but Windows, where the shell is spawned,
  \<open>getShellEnvironment\<close> returns a map whatever the spawn does, and never throws. When
  the spawn fails, the map holds under every key other than \<open>__proto__\<close> the string
  that \<open>process.env\<close> holds there, and nothing where \<open>process.env\<close> holds no string (an
  entry named \<open>__proto__\<close> is not stored); it is cached as a fallback, and a later call
  is answered from that cache only while fewer than 10000 ms have passed. The map of a
  successful spawn is cached as a full derivation and answers while fewer than 60000 ms
  have passed. On Windows no shell is spawned and nothing is caught: the call throws
  exactly when the cache does not answer and \<open>os.userInfo()\<close> throws, and it throws that
  error.
\<close>

theorem getShellEnvironment_never_throws:
  "(platform h \<noteq> ''win32'' \<longrightarrow> (\<exists>m s'. getShellEnvironment h now s = Inr (m, s')))
 \<and> ((getShellEnvironment h now s = Inl t)
      = (platform h = ''win32'' \<and> cache_miss now s \<and> userInfo_username h = Inl t))
 \<and> (platform h \<noteq> ''win32'' \<and> cache_miss now s \<and> shell_spawn h s = Inl e \<longrightarrow>
      (let fallback = (\<lambda>k. if k = ''__proto__'' then None
                            else case process_env s k of Some (Str v) \<Rightarrow> Some v | _ \<Rightarrow> None);
           fb = s\<lparr>cachedEnv := Some fallback, cacheTime := now, isFallbackCache := True\<rparr>
       in getShellEnvironment h now s = Inr (fallback, fb)
        \<and> (\<forall>h' later. later - now < 10000 \<longrightarrow>
              getShellEnvironment h' later fb = Inr (fallback, fb))
        \<and> (\<forall>later. 10000 \<le> later - now \<longrightarrow> cache_miss later fb)))
 \<and> (platform h \<noteq> ''win32'' \<and> cache_miss now s \<and> shell_spawn h s = Inr (out, err) \<longrightarrow>
      (let env = parse_env_lines (split_on CHR ''\<newline>'' out);
           full = s\<lparr>cachedEnv := Some env, cacheTime := now, isFallbackCache := False\<rparr>
       in getShellEnvironment h now s = Inr (env, full)
        \<and> (\<forall>h' later. later - now < 60000 \<longrightarrow>
              getShellEnvironment h' later full = Inr (env, full))
        \<and> (\<forall>later. 60000 \<le> later - now \<longrightarrow> cache_miss later full)))"
proof (intro conjI impI)
  assume "platform h \<noteq> ''win32''"
  then show "\<exists>m s'. getShellEnvironment h now s = Inr (m, s')"
    by (rule getShellEnvironment_returns)
next
  show "(getShellEnvironment h now s = Inl t)
      = (platform h = ''win32'' \<and> cache_miss now s \<and> userInfo_username h = Inl t)"
    by (rule getShellEnvironment_throws)
next
  assume a: "platform h \<noteq> ''win32'' \<and> cache_miss now s \<and> shell_spawn h s = Inl e"
  then have "getShellEnvironment h now s =
       Inr (string_entries (process_env s),
            s\<lparr>cachedEnv := Some (string_entries (process_env s)), cacheTime := now,
              isFallbackCache := True\<rparr>)"
    by (intro getShellEnvironment_fallback) simp_all
  then show "let fallback = (\<lambda>k. if k = ''__proto__'' then None
                            else case process_env s k of Some (Str v) \<Rightarrow> Some v | _ \<Rightarrow> None);
           fb = s\<lparr>cachedEnv := Some fallback, cacheTime := now, isFallbackCache := True\<rparr>
       in getShellEnvironment h now s = Inr (fallback, fb)
        \<and> (\<forall>h' later. later - now < 10000 \<longrightarrow>
              getShellEnvironment h' later fb = Inr (fallback, fb))
        \<and> (\<forall>later. 10000 \<le> later - now \<longrightarrow> cache_miss later fb)"
    unfolding Let_def string_entries_eq
    using cached_answers [where fbk = True] cached_expires [where fbk = True]
    by simp
next
  assume a: "platform h \<noteq> ''win32'' \<and> cache_miss now s \<and> shell_spawn h s = Inr (out, err)"
  then have "getShellEnvironment h now s =
       Inr (parse_env_lines (split_on CHR ''\<newline>'' out),
            s\<lparr>cachedEnv := Some (parse_env_lines (split_on CHR ''\<newline>'' out)),
              cacheTime := now, isFallbackCache := False\<rparr>)"
    by (intro getShellEnvironment_full) simp_all
  then show "let env = parse_env_lines (split_on CHR ''\<newline>'' out);
           full = s\<lparr>cachedEnv := Some env, cacheTime := now, isFallbackCache := False\<rparr>
       in getShellEnvironment h now s = Inr (env, full)
        \<and> (\<forall>h' later. later - now < 60000 \<longrightarrow>
              getShellEnvironment h' later full = Inr (env, full))
        \<and> (\<forall>later. 60000 \<le> later - now \<longrightarrow> cache_miss later full)"
    unfolding Let_def
    using cached_answers [where fbk = False] cached_expires [where fbk = False]
    by simp
qed

text \<open>
  The claim as stated fails. On a Windows machine whose \<open>os.userInfo()\<close> throws (Node
  documents a \<open>SystemError\<close> for a user without name or home directory), the call
  throws that error. And when the spawn fails in a process that has a variable named
  \<open>__proto__\<close>, the fallback is not a copy of the string-valued entries: that entry is
  missing.
\<close>

theorem getShellEnvironment_never_throws_counterexample:
  "getShellEnvironment
      (win_host\<lparr>userInfo_username :=
         Inl (ErrorObj (Some ''ERR_SYSTEM_ERROR'') ''A system error occurred: uv_os_get_passwd returned ENOENT (no such file or directory)'')\<rparr>)
      1000 (module_init win_env)
    = Inl (ErrorObj (Some ''ERR_SYSTEM_ERROR'') ''A system error occurred: uv_os_get_passwd returned ENOENT (no such file or directory)'')
 \<and> (\<exists>m s'. getShellEnvironment linux_host 1000
        (module_init [''SHELL'' \<mapsto> Str ''/bin/false'', ''PATH'' \<mapsto> Str ''/usr/bin'',
                      ''__proto__'' \<mapsto> Str ''x''])
      = Inr (m, s')
      \<and> isFallbackCache s' \<and> m ''PATH'' = Some ''/usr/bin'' \<and> m ''__proto__'' = None)"
proof -
  let ?t = "ErrorObj (Some ''ERR_SYSTEM_ERROR'') ''A system error occurred: uv_os_get_passwd returned ENOENT (no such file or directory)''"
  let ?s = "module_init [''SHELL'' \<mapsto> Str ''/bin/false'', ''PATH'' \<mapsto> Str ''/usr/bin'',
                      ''__proto__'' \<mapsto> Str ''x'']"
  have "cache_miss 1000 (module_init win_env)"
    by (simp add: cache_miss_def module_init_def)
  then have A: "getShellEnvironment (win_host\<lparr>userInfo_username := Inl ?t\<rparr>) 1000 (module_init win_env)
      = Inl ?t"
    by (simp add: getShellEnvironment_throws win_host_def)
  have pl: "platform linux_host \<noteq> ''win32''" by (simp add: linux_host_def)
  have cm: "cache_miss 1000 ?s" by (simp add: cache_miss_def module_init_def)
  have sp: "shell_spawn linux_host ?s = Inl (ErrorObj (Some ''ENOENT'') ''spawn /bin/false ENOENT'')"
    by (simp add: shell_spawn_def module_init_def linux_host_def linux_exec_def)
  have "string_entries (process_env ?s) ''PATH'' = Some ''/usr/bin''"
    "string_entries (process_env ?s) ''__proto__'' = None"
    by (simp_all add: string_entries_lookup module_init_def)
  then have B: "\<exists>m s'. getShellEnvironment linux_host 1000 ?s = Inr (m, s')
      \<and> isFallbackCache s' \<and> m ''PATH'' = Some ''/usr/bin'' \<and> m ''__proto__'' = None"
    using getShellEnvironment_fallback [OF pl cm sp] by simp
  from A B show ?thesis by blast
qed

theorem getShellEnvironment_never_throws_witness:
  "platform linux_host \<noteq> ''win32''
 \<and> cache_miss 5 (module_init [''PATH'' \<mapsto> Str ''/usr/bin'', ''SHELL'' \<mapsto> Str ''/bin/false'', ''X'' \<mapsto> Undefined])
 \<and> (\<exists>e. shell_spawn linux_host (module_init [''PATH'' \<mapsto> Str ''/usr/bin'', ''SHELL'' \<mapsto> Str ''/bin/false'', ''X'' \<mapsto> Undefined]) = Inl e)
 \<and> (\<exists>m s'. getShellEnvironment linux_host 5
        (module_init [''PATH'' \<mapsto> Str ''/usr/bin'', ''SHELL'' \<mapsto> Str ''/bin/false'', ''X'' \<mapsto> Undefined]) = Inr (m, s')
      \<and> m ''PATH'' = Some ''/usr/bin'' \<and> m ''SHELL'' = Some ''/bin/false'' \<and> m ''X'' = None
      \<and> isFallbackCache s' \<and> cacheTime s' = 5
      \<and> getShellEnvironment linux_host 10004 s' = Inr (m, s')
      \<and> cache_miss 10005 s')
 \<and> platform win_host = ''win32''
 \<and> (\<forall>t. getShellEnvironment win_host 5 (module_init win_env) \<noteq> Inl t)"
proof -
  let ?pe = "[''PATH'' \<mapsto> Str ''/usr/bin'', ''SHELL'' \<mapsto> Str ''/bin/false'', ''X'' \<mapsto> Undefined]"
  let ?s = "module_init ?pe"
  let ?e = "ErrorObj (Some ''ENOENT'') ''spawn /bin/false ENOENT''"
  let ?m = "\<lambda>k. if k = ''__proto__'' then None
                else case process_env ?s k of Some (Str v) \<Rightarrow> Some v | _ \<Rightarrow> None"
  let ?fb = "?s\<lparr>cachedEnv := Some ?m, cacheTime := 5, isFallbackCache := True\<rparr>"
  have pl: "platform linux_host \<noteq> ''win32''" by (simp add: linux_host_def)
  have pw: "platform win_host = ''win32''" by (simp add: win_host_def)
  have miss: "cache_miss 5 ?s" by (simp add: cache_miss_def module_init_def)
  have sp: "shell_spawn linux_host ?s = Inl ?e"
    by (simp add: shell_spawn_def module_init_def linux_host_def linux_exec_def)
  from getShellEnvironment_never_throws [of linux_host 5 ?s _ ?e] pl miss sp
  have r: "getShellEnvironment linux_host 5 ?s = Inr (?m, ?fb)"
    and hit: "\<forall>h' later. later - 5 < 10000 \<longrightarrow> getShellEnvironment h' later ?fb = Inr (?m, ?fb)"
    and exp: "\<forall>later. 10000 \<le> later - 5 \<longrightarrow> cache_miss later ?fb"
    by (simp_all add: Let_def)
  have vals: "?m ''PATH'' = Some ''/usr/bin''" "?m ''SHELL'' = Some ''/bin/false''" "?m ''X'' = None"
    by (simp_all add: module_init_def)
  from hit have h2: "getShellEnvironment linux_host 10004 ?fb = Inr (?m, ?fb)"
    by simp
  from exp have e2: "cache_miss 10005 ?fb" by simp
  have L: "\<exists>m s'. getShellEnvironment linux_host 5 ?s = Inr (m, s')
      \<and> m ''PATH'' = Some ''/usr/bin'' \<and> m ''SHELL'' = Some ''/bin/false'' \<and> m ''X'' = None
      \<and> isFallbackCache s' \<and> cacheTime s' = 5
      \<and> getShellEnvironment linux_host 10004 s' = Inr (m, s')
      \<and> cache_miss 10005 s'"
    using r vals h2 e2 by (intro exI [of _ ?m] exI [of _ ?fb]) simp
  have W: "getShellEnvironment win_host 5 (module_init win_env) \<noteq> Inl t" for t
    using getShellEnvironment_never_throws [of win_host 5 "module_init win_env" t]
    by (simp add: win_host_def linux_host_def)
  from pl pw miss sp L W show ?thesis by blast
qed

subsection \<open>The self-healing retry of execWithShellEnv\<close>

lemma retryEnv_lookup:
  "retryEnv shellEnv options k =
     (if k = ''PATH'' \<and> is_set (shellEnv ''PATH'') then map_option Str (shellEnv ''PATH'')
      else (case caller_env options k of
              Some v \<Rightarrow> Some v
            | None \<Rightarrow> map_option Str (shellEnv k)))"
  by (auto simp: retryEnv_def to_obj_def map_add_def split: option.splits)

lemma persist_fix_fields:
  "pathFixAttempted (persist_fix shellEnv s) = pathFixAttempted s"
  "pathFixSucceeded (persist_fix shellEnv s) = (pathFixSucceeded s \<or> is_set (shellEnv ''PATH''))"
  "process_env (persist_fix shellEnv s) ''PATH'' =
     (if is_set (shellEnv ''PATH'') then map_option Str (shellEnv ''PATH'') else process_env s ''PATH'')"
  by (auto simp: persist_fix_def split: option.splits)

lemma getShellEnvironment_flags:
  "getShellEnvironment h now s = Inr (m, s') \<Longrightarrow>
     pathFixAttempted s' = pathFixAttempted s \<and> pathFixSucceeded s' = pathFixSucceeded s
     \<and> process_env s' = process_env s"
  by (auto simp: getShellEnvironment_def derive_windows_def derive_shell_def Let_def
      split: option.splits if_splits sum.splits prod.splits)

lemma execWithShellEnv_no_retry:
  assumes "execFile h cmd args (with_utf8 options) = Inl e"
    and "platform h \<noteq> ''darwin'' \<or> pathFixSucceeded s \<or> pathFixAttempted s \<or> \<not> is_ENOENT e"
  shows "execWithShellEnv h retry now cmd args options s =
           (Inl e, s, [Exec cmd args (with_utf8 options)])"
  using assms by (auto simp: execWithShellEnv_def)

lemma execWithShellEnv_heal:
  assumes first: "execFile h cmd args (with_utf8 options) = Inl e"
    and elig: "platform h = ''darwin''" "\<not> pathFixSucceeded s" "\<not> pathFixAttempted s" "is_ENOENT e"
    and der: "getShellEnvironment h now (s\<lparr>pathFixAttempted := True\<rparr>) = Inr (shellEnv, s2)"
  shows "execWithShellEnv h retry now cmd args options s =
           (retry cmd args (retry_options shellEnv options),
            (persist_fix shellEnv s2)\<lparr>pathFixAttempted :=
                (case retry cmd args (retry_options shellEnv options) of
                   Inr out \<Rightarrow> True | Inl err \<Rightarrow> False)\<rparr>,
            [Exec cmd args (with_utf8 options), Derive,
             Exec cmd args (retry_options shellEnv options)])"
proof -
  from der have "pathFixAttempted s2" 
    using getShellEnvironment_flags [OF der] by simp
  then have "pathFixAttempted (persist_fix shellEnv s2)"
    by (simp add: persist_fix_fields)
  then have same: "(persist_fix shellEnv s2)\<lparr>pathFixAttempted := True\<rparr> = persist_fix shellEnv s2"
    by simp
  show ?thesis
    using first elig der same
    by (auto simp: execWithShellEnv_def retry_options_def Let_def split: sum.splits)
qed

text \<open>
  C7, as the code has it. A first run that succeeds is the result. When the first run
  fails and the failure is not eligible (another platform, a fix already attempted or
  already made, an error other than \<open>ENOENT\<close>), the error is thrown again, the state is
  unchanged and nothing else runs. When it is eligible, the environment is derived
  exactly once and the command is run exactly once more, with the caller's variables
  laid over the derived ones and \<open>PATH\<close> forced to the derived value when there is one;
  the result of that run is the result of the call; the attempted flag stays set when
  the retry succeeds and is reset when it fails; the fix counts as made exactly when a
  \<open>PATH\<close> was derived, whatever the retry does, and then \<open>process.env.PATH\<close> holds it.
  So a later \<open>ENOENT\<close> failure starts a new cycle exactly when the retry failed and no
  \<open>PATH\<close> had been derived. No call derives more than once or runs the command more
  than twice, and once the fix is made every call runs the command once, derives
  nothing and leaves the fix made.
\<close>

theorem execWithShellEnv_self_heal:
  "(execFile h cmd args (with_utf8 options) = Inr out \<longrightarrow>
      execWithShellEnv h retry now cmd args options s =
        (Inr out, s, [Exec cmd args (with_utf8 options)]))
 \<and> (execFile h cmd args (with_utf8 options) = Inl e \<and> \<not> eligible h s e \<longrightarrow>
      execWithShellEnv h retry now cmd args options s =
        (Inl e, s, [Exec cmd args (with_utf8 options)]))
 \<and> (execFile h cmd args (with_utf8 options) = Inl e \<and> eligible h s e \<longrightarrow>
      (\<exists>shellEnv s2 s'.
         getShellEnvironment h now (s\<lparr>pathFixAttempted := True\<rparr>) = Inr (shellEnv, s2)
       \<and> execWithShellEnv h retry now cmd args options s =
           (retry cmd args (retry_options shellEnv options), s',
            [Exec cmd args (with_utf8 options), Derive,
             Exec cmd args (retry_options shellEnv options)])
       \<and> o_env (retry_options shellEnv options) = Some (retryEnv shellEnv options)
       \<and> (\<forall>k. retryEnv shellEnv options k =
             (if k = ''PATH'' \<and> is_set (shellEnv ''PATH'') then map_option Str (shellEnv ''PATH'')
              else (case caller_env options k of
                      Some v \<Rightarrow> Some v
                    | None \<Rightarrow> map_option Str (shellEnv k))))
       \<and> pathFixAttempted s' =
            (case retry cmd args (retry_options shellEnv options) of
               Inr out \<Rightarrow> True | Inl err \<Rightarrow> False)
       \<and> pathFixSucceeded s' = is_set (shellEnv ''PATH'')
       \<and> (is_set (shellEnv ''PATH'') \<longrightarrow>
             process_env s' ''PATH'' = map_option Str (shellEnv ''PATH''))
       \<and> (\<forall>e'. eligible h s' e' =
             (is_ENOENT e' \<and> \<not> is_set (shellEnv ''PATH'')
              \<and> (case retry cmd args (retry_options shellEnv options) of
                    Inr out \<Rightarrow> False | Inl err \<Rightarrow> True)))))
 \<and> (case execWithShellEnv h retry now cmd args options s of
       (res, s', tr) \<Rightarrow>
         derivations tr \<le> 1 \<and> runs tr \<le> 2
       \<and> (pathFixSucceeded s \<longrightarrow>
             pathFixSucceeded s' \<and> derivations tr = 0 \<and> runs tr = 1))"
proof (intro conjI impI)
  assume "execFile h cmd args (with_utf8 options) = Inr out"
  then show "execWithShellEnv h retry now cmd args options s =
        (Inr out, s, [Exec cmd args (with_utf8 options)])"
    by (simp add: execWithShellEnv_def)
next
  assume "execFile h cmd args (with_utf8 options) = Inl e \<and> \<not> eligible h s e"
  then show "execWithShellEnv h retry now cmd args options s =
        (Inl e, s, [Exec cmd args (with_utf8 options)])"
    by (intro execWithShellEnv_no_retry) (auto simp: eligible_def)
next
  assume a: "execFile h cmd args (with_utf8 options) = Inl e \<and> eligible h s e"
  then have dar: "platform h \<noteq> ''win32''" by (simp add: eligible_def)
  from a have darwin: "platform h = ''darwin''" by (simp add: eligible_def)
  from getShellEnvironment_returns [OF dar] obtain shellEnv s2 where
    der: "getShellEnvironment h now (s\<lparr>pathFixAttempted := True\<rparr>) = Inr (shellEnv, s2)"
    by blast
  have fl: "pathFixSucceeded s2 = pathFixSucceeded s"
    using getShellEnvironment_flags [OF der] by simp
  let ?res = "retry cmd args (retry_options shellEnv options)"
  let ?s' = "(persist_fix shellEnv s2)\<lparr>pathFixAttempted :=
                (case ?res of Inr out \<Rightarrow> True | Inl err \<Rightarrow> False)\<rparr>"
  have run: "execWithShellEnv h retry now cmd args options s =
      (?res, ?s', [Exec cmd args (with_utf8 options), Derive,
             Exec cmd args (retry_options shellEnv options)])"
    using a der by (intro execWithShellEnv_heal) (auto simp: eligible_def)
  have oe: "o_env (retry_options shellEnv options) = Some (retryEnv shellEnv options)"
    by (simp add: retry_options_def)
  have su: "pathFixSucceeded ?s' = is_set (shellEnv ''PATH'')"
    using a fl by (simp add: persist_fix_fields eligible_def)
  have pe: "is_set (shellEnv ''PATH'') \<longrightarrow>
             process_env ?s' ''PATH'' = map_option Str (shellEnv ''PATH'')"
    by (simp add: persist_fix_fields)
  have at: "pathFixAttempted ?s' = (case ?res of Inr out \<Rightarrow> True | Inl err \<Rightarrow> False)"
    by simp
  have el: "\<forall>e'. eligible h ?s' e' =
             (is_ENOENT e' \<and> \<not> is_set (shellEnv ''PATH'')
              \<and> (case ?res of Inr out \<Rightarrow> False | Inl err \<Rightarrow> True))"
  proof (cases ?res)
    case (Inl err)
    with su darwin show ?thesis by (auto simp: eligible_def)
  next
    case (Inr res)
    with su darwin show ?thesis by (auto simp: eligible_def)
  qed
  show "\<exists>shellEnv s2 s'.
         getShellEnvironment h now (s\<lparr>pathFixAttempted := True\<rparr>) = Inr (shellEnv, s2)
       \<and> execWithShellEnv h retry now cmd args options s =
           (retry cmd args (retry_options shellEnv options), s',
            [Exec cmd args (with_utf8 options), Derive,
             Exec cmd args (retry_options shellEnv options)])
       \<and> o_env (retry_options shellEnv options) = Some (retryEnv shellEnv options)
       \<and> (\<forall>k. retryEnv shellEnv options k =
             (if k = ''PATH'' \<and> is_set (shellEnv ''PATH'') then map_option Str (shellEnv ''PATH'')
              else (case caller_env options k of
                      Some v \<Rightarrow> Some v
                    | None \<Rightarrow> map_option Str (shellEnv k))))
       \<and> pathFixAttempted s' =
            (case retry cmd args (retry_options shellEnv options) of
               Inr out \<Rightarrow> True | Inl err \<Rightarrow> False)
       \<and> pathFixSucceeded s' = is_set (shellEnv ''PATH'')
       \<and> (is_set (shellEnv ''PATH'') \<longrightarrow>
             process_env s' ''PATH'' = map_option Str (shellEnv ''PATH''))
       \<and> (\<forall>e'. eligible h s' e' =
             (is_ENOENT e' \<and> \<not> is_set (shellEnv ''PATH'')
              \<and> (case retry cmd args (retry_options shellEnv options) of
                    Inr out \<Rightarrow> False | Inl err \<Rightarrow> True)))"
  proof (rule exI [of _ shellEnv], rule exI [of _ s2], rule exI [of _ ?s'], intro conjI)
    show "getShellEnvironment h now (s\<lparr>pathFixAttempted := True\<rparr>) = Inr (shellEnv, s2)"
      by (rule der)
    show "execWithShellEnv h retry now cmd args options s =
      (?res, ?s', [Exec cmd args (with_utf8 options), Derive,
             Exec cmd args (retry_options shellEnv options)])"
      by (rule run)
    show "o_env (retry_options shellEnv options) = Some (retryEnv shellEnv options)"
      by (rule oe)
    show "\<forall>k. retryEnv shellEnv options k =
             (if k = ''PATH'' \<and> is_set (shellEnv ''PATH'') then map_option Str (shellEnv ''PATH'')
              else (case caller_env options k of
                      Some v \<Rightarrow> Some v
                    | None \<Rightarrow> map_option Str (shellEnv k)))"
      using retryEnv_lookup [of shellEnv options] by blast
    show "pathFixAttempted ?s' = (case ?res of Inr out \<Rightarrow> True | Inl err \<Rightarrow> False)"
      by (rule at)
    show "pathFixSucceeded ?s' = is_set (shellEnv ''PATH'')"
      by (rule su)
    show "is_set (shellEnv ''PATH'') \<longrightarrow>
             process_env ?s' ''PATH'' = map_option Str (shellEnv ''PATH'')"
      by (rule pe)
    show "\<forall>e'. eligible h ?s' e' =
             (is_ENOENT e' \<and> \<not> is_set (shellEnv ''PATH'')
              \<and> (case ?res of Inr out \<Rightarrow> False | Inl err \<Rightarrow> True))"
      by (rule el)
  qed
next
  show "case execWithShellEnv h retry now cmd args options s of
       (res, s', tr) \<Rightarrow>
         derivations tr \<le> 1 \<and> runs tr \<le> 2
       \<and> (pathFixSucceeded s \<longrightarrow>
             pathFixSucceeded s' \<and> derivations tr = 0 \<and> runs tr = 1)"
    by (auto simp: execWithShellEnv_def derivations_def runs_def Let_def
        split: sum.splits prod.splits)
qed

lemma darwin_lines:
  "split_on CHR ''\<newline>'' ''PATH=/opt/homebrew/bin:/usr/bin:/bin\<newline>HOME=/Users/u\<newline>''
     = [''PATH=/opt/homebrew/bin:/usr/bin:/bin'', ''HOME=/Users/u'', []]"
  by simp

lemma darwin_env:
  "parse_env_lines [''PATH=/opt/homebrew/bin:/usr/bin:/bin'', ''HOME=/Users/u'', []]
     = [''PATH'' \<mapsto> ''/opt/homebrew/bin:/usr/bin:/bin'', ''HOME'' \<mapsto> ''/Users/u'']"
  by (simp add: parse_env_lines_def parse_env_line_def assign_def Let_def)

lemma darwin_derive:
  "\<exists>s2. getShellEnvironment darwin_host now
          ((module_init [''PATH'' \<mapsto> Str ''/usr/bin:/bin''])\<lparr>pathFixAttempted := True\<rparr>)
        = Inr ([''PATH'' \<mapsto> ''/opt/homebrew/bin:/usr/bin:/bin'', ''HOME'' \<mapsto> ''/Users/u''], s2)"
proof -
  let ?s1 = "(module_init [''PATH'' \<mapsto> Str ''/usr/bin:/bin''])\<lparr>pathFixAttempted := True\<rparr>"
  have pl: "platform darwin_host \<noteq> ''win32''" by (simp add: darwin_host_def)
  have sp: "shell_spawn darwin_host ?s1 =
      Inr (''PATH=/opt/homebrew/bin:/usr/bin:/bin\<newline>HOME=/Users/u\<newline>'', [])"
    by (simp add: shell_spawn_def darwin_host_def darwin_exec_def module_init_def linux_host_def)
  have miss: "cache_miss now ?s1"
    by (simp add: cache_miss_def module_init_def)
  from getShellEnvironment_full [OF pl miss sp] show ?thesis
    by (simp only: darwin_lines darwin_env) blast
qed

lemma darwin_derive_bare:
  "\<exists>s2. getShellEnvironment darwin_host now
          ((module_init [''SHELL'' \<mapsto> Str ''/bin/false''])\<lparr>pathFixAttempted := True\<rparr>)
        = Inr ([''SHELL'' \<mapsto> ''/bin/false''], s2)"
proof -
  let ?s1 = "(module_init [''SHELL'' \<mapsto> Str ''/bin/false''])\<lparr>pathFixAttempted := True\<rparr>"
  have pl: "platform darwin_host \<noteq> ''win32''" by (simp add: darwin_host_def)
  have sp: "shell_spawn darwin_host ?s1 = Inl (ErrorObj (Some ''ENOENT'') ''spawn /bin/false ENOENT'')"
    by (simp add: shell_spawn_def darwin_host_def darwin_exec_def module_init_def)
  have miss: "cache_miss now ?s1"
    by (simp add: cache_miss_def module_init_def)
  have "string_entries (process_env ?s1) = [''SHELL'' \<mapsto> ''/bin/false'']"
    by (rule ext) (simp add: string_entries_lookup module_init_def)
  with getShellEnvironment_fallback [OF pl miss sp] show ?thesis
    by simp
qed

text \<open>
  The claim as stated fails where it says that a future call can try again after a
  failed retry. \<open>git-lfs\<close> is not installed: the first call derives the environment,
  retries, fails again and resets the attempted flag; but the derived \<open>PATH\<close> has been
  written to \<open>process.env\<close> and the fix counts as made. Seventy seconds later the same
  command fails again with \<open>ENOENT\<close>, and although a second cycle would now succeed,
  nothing is derived and nothing is retried.
\<close>

theorem execWithShellEnv_self_heal_counterexample:
  "\<exists>shellEnv s'.
      execWithShellEnv darwin_host darwin_retry 1000 ''git-lfs'' [''version''] None
          (module_init [''PATH'' \<mapsto> Str ''/usr/bin:/bin''])
        = (Inl (ErrorObj (Some ''ENOENT'') ''spawn git-lfs ENOENT''), s',
           [Exec ''git-lfs'' [''version''] (with_utf8 None), Derive,
            Exec ''git-lfs'' [''version''] (retry_options shellEnv None)])
    \<and> \<not> pathFixAttempted s'
    \<and> execWithShellEnv darwin_host (\<lambda>cmd args opts. Inr (''git-lfs/3.5.1'', [])) 70000
          ''git-lfs'' [''version''] None s'
        = (Inl (ErrorObj (Some ''ENOENT'') ''spawn git-lfs ENOENT''), s',
           [Exec ''git-lfs'' [''version''] (with_utf8 None)])"
proof -
  let ?s0 = "module_init [''PATH'' \<mapsto> Str ''/usr/bin:/bin'']"
  let ?e = "ErrorObj (Some ''ENOENT'') ''spawn git-lfs ENOENT''"
  let ?env = "[''PATH'' \<mapsto> ''/opt/homebrew/bin:/usr/bin:/bin'', ''HOME'' \<mapsto> ''/Users/u'']"
  from darwin_derive [of 1000] obtain s2 where
    der: "getShellEnvironment darwin_host 1000 (?s0\<lparr>pathFixAttempted := True\<rparr>) = Inr (?env, s2)"
    by blast
  let ?s' = "(persist_fix ?env s2)\<lparr>pathFixAttempted := False\<rparr>"
  have first: "execFile darwin_host ''git-lfs'' [''version''] (with_utf8 None) = Inl ?e"
    by (simp add: darwin_host_def darwin_exec_def)
  have ret: "darwin_retry ''git-lfs'' [''version''] (retry_options ?env None) = Inl ?e"
    by (simp add: darwin_retry_def)
  have c1: "execWithShellEnv darwin_host darwin_retry 1000 ''git-lfs'' [''version''] None ?s0
      = (Inl ?e, ?s',
         [Exec ''git-lfs'' [''version''] (with_utf8 None), Derive,
          Exec ''git-lfs'' [''version''] (retry_options ?env None)])"
    using execWithShellEnv_heal [OF first _ _ _ _ der, of darwin_retry]
    by (simp add: ret darwin_host_def module_init_def is_ENOENT_def)
  have su: "pathFixSucceeded ?s'"
    by (simp add: persist_fix_fields)
  have c2: "execWithShellEnv darwin_host (\<lambda>cmd args opts. Inr (''git-lfs/3.5.1'', [])) 70000
          ''git-lfs'' [''version''] None ?s'
      = (Inl ?e, ?s', [Exec ''git-lfs'' [''version''] (with_utf8 None)])"
    using su by (intro execWithShellEnv_no_retry first) simp
  have "\<not> pathFixAttempted ?s'" by simp
  with c1 c2 show ?thesis by blast
qed

theorem execWithShellEnv_self_heal_witness:
  "(\<exists>e. execFile darwin_host ''git'' [''--version''] (with_utf8 (Some git_options)) = Inl e
        \<and> eligible darwin_host (module_init [''PATH'' \<mapsto> Str ''/usr/bin:/bin'']) e)
 \<and> (\<exists>shellEnv s'.
        execWithShellEnv darwin_host darwin_retry 1000 ''git'' [''--version''] (Some git_options)
            (module_init [''PATH'' \<mapsto> Str ''/usr/bin:/bin''])
          = (Inr (''git version 2.44.0\<newline>'', []), s',
             [Exec ''git'' [''--version''] (with_utf8 (Some git_options)), Derive,
              Exec ''git'' [''--version''] (retry_options shellEnv (Some git_options))])
      \<and> shellEnv ''PATH'' = Some ''/opt/homebrew/bin:/usr/bin:/bin''
      \<and> caller_env (Some git_options) ''PATH'' = Some (Str ''/usr/bin:/bin'')
      \<and> retryEnv shellEnv (Some git_options) ''PATH''
          = Some (Str ''/opt/homebrew/bin:/usr/bin:/bin'')
      \<and> retryEnv shellEnv (Some git_options) ''GIT_TERMINAL_PROMPT'' = Some (Str ''0'')
      \<and> retryEnv shellEnv (Some git_options) ''HOME'' = Some (Str ''/Users/u'')
      \<and> pathFixAttempted s' \<and> pathFixSucceeded s'
      \<and> process_env s' ''PATH'' = Some (Str ''/opt/homebrew/bin:/usr/bin:/bin'')
      \<and> execWithShellEnv darwin_host darwin_retry 2000 ''git-lfs'' [''version''] None s'
          = (Inl (ErrorObj (Some ''ENOENT'') ''spawn git-lfs ENOENT''), s',
             [Exec ''git-lfs'' [''version''] (with_utf8 None)]))
 \<and> (\<exists>shellEnv s'.
        execWithShellEnv darwin_host darwin_retry 1000 ''git-lfs'' [''version''] None
            (module_init [''SHELL'' \<mapsto> Str ''/bin/false''])
          = (Inl (ErrorObj (Some ''ENOENT'') ''spawn git-lfs ENOENT''), s',
             [Exec ''git-lfs'' [''version''] (with_utf8 None), Derive,
              Exec ''git-lfs'' [''version''] (retry_options shellEnv None)])
      \<and> shellEnv ''PATH'' = None
      \<and> \<not> pathFixAttempted s' \<and> \<not> pathFixSucceeded s'
      \<and> eligible darwin_host s' (ErrorObj (Some ''ENOENT'') ''spawn git-lfs ENOENT''))"
proof -
  let ?s0 = "module_init [''PATH'' \<mapsto> Str ''/usr/bin:/bin'']"
  let ?sb = "module_init [''SHELL'' \<mapsto> Str ''/bin/false'']"
  let ?o = "Some git_options"
  let ?e = "ErrorObj (Some ''ENOENT'') ''spawn git ENOENT''"
  let ?e2 = "ErrorObj (Some ''ENOENT'') ''spawn git-lfs ENOENT''"
  let ?env = "[''PATH'' \<mapsto> ''/opt/homebrew/bin:/usr/bin:/bin'', ''HOME'' \<mapsto> ''/Users/u'']"
  have first: "execFile darwin_host ''git'' [''--version''] (with_utf8 ?o) = Inl ?e"
    by (simp add: darwin_host_def darwin_exec_def)
  have el: "eligible darwin_host ?s0 ?e"
    by (simp add: eligible_def darwin_host_def module_init_def is_ENOENT_def)
  from execWithShellEnv_self_heal [of darwin_host "''git''" "[''--version'']" ?o _ darwin_retry
      1000 ?s0 ?e] first el
  obtain shellEnv s2 s' where
    g: "getShellEnvironment darwin_host 1000 (?s0\<lparr>pathFixAttempted := True\<rparr>) = Inr (shellEnv, s2)"
    and r: "execWithShellEnv darwin_host darwin_retry 1000 ''git'' [''--version''] ?o ?s0 =
           (darwin_retry ''git'' [''--version''] (retry_options shellEnv ?o), s',
            [Exec ''git'' [''--version''] (with_utf8 ?o), Derive,
             Exec ''git'' [''--version''] (retry_options shellEnv ?o)])"
    and re: "\<forall>k. retryEnv shellEnv ?o k =
             (if k = ''PATH'' \<and> is_set (shellEnv ''PATH'') then map_option Str (shellEnv ''PATH'')
              else (case caller_env ?o k of
                      Some v \<Rightarrow> Some v
                    | None \<Rightarrow> map_option Str (shellEnv k)))"
    and at: "pathFixAttempted s' =
            (case darwin_retry ''git'' [''--version''] (retry_options shellEnv ?o) of
               Inr out \<Rightarrow> True | Inl err \<Rightarrow> False)"
    and su: "pathFixSucceeded s' = is_set (shellEnv ''PATH'')"
    and pe: "is_set (shellEnv ''PATH'') \<longrightarrow>
             process_env s' ''PATH'' = map_option Str (shellEnv ''PATH'')"
    by blast
  from g darwin_derive [of 1000] have sh: "shellEnv = ?env" by auto
  have ret: "darwin_retry ''git'' [''--version''] (retry_options shellEnv ?o)
      = Inr (''git version 2.44.0\<newline>'', [])"
    by (simp add: darwin_retry_def)
  have p: "shellEnv ''PATH'' = Some ''/opt/homebrew/bin:/usr/bin:/bin''"
    using sh by simp
  have ce: "caller_env ?o ''PATH'' = Some (Str ''/usr/bin:/bin'')"
    "caller_env ?o ''GIT_TERMINAL_PROMPT'' = Some (Str ''0'')"
    "caller_env ?o ''HOME'' = None"
    by (simp_all add: caller_env_def git_options_def)
  from re p have rp: "retryEnv shellEnv ?o ''PATH'' = Some (Str ''/opt/homebrew/bin:/usr/bin:/bin'')"
    by simp
  from re ce have rg: "retryEnv shellEnv ?o ''GIT_TERMINAL_PROMPT'' = Some (Str ''0'')"
    by simp
  from re ce sh have rh: "retryEnv shellEnv ?o ''HOME'' = Some (Str ''/Users/u'')"
    by simp
  from su p have su': "pathFixSucceeded s'" by simp
  from at ret have at': "pathFixAttempted s'" by simp
  from pe p have pe': "process_env s' ''PATH'' = Some (Str ''/opt/homebrew/bin:/usr/bin:/bin'')"
    by simp
  have first2: "execFile darwin_host ''git-lfs'' [''version''] (with_utf8 None) = Inl ?e2"
    by (simp add: darwin_host_def darwin_exec_def)
  from su' have nel: "\<not> eligible darwin_host s' ?e2" by (simp add: eligible_def)
  from execWithShellEnv_self_heal [of darwin_host "''git-lfs''" "[''version'']" None _ darwin_retry
      2000 s' ?e2] first2 nel
  have second: "execWithShellEnv darwin_host darwin_retry 2000 ''git-lfs'' [''version''] None s'
          = (Inl ?e2, s', [Exec ''git-lfs'' [''version''] (with_utf8 None)])"
    by blast
  from first el have A: "\<exists>e. execFile darwin_host ''git'' [''--version''] (with_utf8 ?o) = Inl e
        \<and> eligible darwin_host ?s0 e" by blast
  from r ret p ce(1) rp rg rh at' su' pe' second
  have B: "\<exists>shellEnv s'.
        execWithShellEnv darwin_host darwin_retry 1000 ''git'' [''--version''] ?o ?s0
          = (Inr (''git version 2.44.0\<newline>'', []), s',
             [Exec ''git'' [''--version''] (with_utf8 ?o), Derive,
              Exec ''git'' [''--version''] (retry_options shellEnv ?o)])
      \<and> shellEnv ''PATH'' = Some ''/opt/homebrew/bin:/usr/bin:/bin''
      \<and> caller_env ?o ''PATH'' = Some (Str ''/usr/bin:/bin'')
      \<and> retryEnv shellEnv ?o ''PATH'' = Some (Str ''/opt/homebrew/bin:/usr/bin:/bin'')
      \<and> retryEnv shellEnv ?o ''GIT_TERMINAL_PROMPT'' = Some (Str ''0'')
      \<and> retryEnv shellEnv ?o ''HOME'' = Some (Str ''/Users/u'')
      \<and> pathFixAttempted s' \<and> pathFixSucceeded s'
      \<and> process_env s' ''PATH'' = Some (Str ''/opt/homebrew/bin:/usr/bin:/bin'')
      \<and> execWithShellEnv darwin_host darwin_retry 2000 ''git-lfs'' [''version''] None s'
          = (Inl ?e2, s', [Exec ''git-lfs'' [''version''] (with_utf8 None)])"
    by auto
  have elb: "eligible darwin_host ?sb ?e2"
    by (simp add: eligible_def darwin_host_def module_init_def is_ENOENT_def)
  from execWithShellEnv_self_heal [of darwin_host "''git-lfs''" "[''version'']" None _ darwin_retry
      1000 ?sb ?e2] first2 elb
  obtain shellEnv3 s3 s'' where
    g3: "getShellEnvironment darwin_host 1000 (?sb\<lparr>pathFixAttempted := True\<rparr>) = Inr (shellEnv3, s3)"
    and r3: "execWithShellEnv darwin_host darwin_retry 1000 ''git-lfs'' [''version''] None ?sb =
           (darwin_retry ''git-lfs'' [''version''] (retry_options shellEnv3 None), s'',
            [Exec ''git-lfs'' [''version''] (with_utf8 None), Derive,
             Exec ''git-lfs'' [''version''] (retry_options shellEnv3 None)])"
    and at3: "pathFixAttempted s'' =
            (case darwin_retry ''git-lfs'' [''version''] (retry_options shellEnv3 None) of
               Inr out \<Rightarrow> True | Inl err \<Rightarrow> False)"
    and su3: "pathFixSucceeded s'' = is_set (shellEnv3 ''PATH'')"
    and el3: "\<forall>e'. eligible darwin_host s'' e' =
             (is_ENOENT e' \<and> \<not> is_set (shellEnv3 ''PATH'')
              \<and> (case darwin_retry ''git-lfs'' [''version''] (retry_options shellEnv3 None) of
                    Inr out \<Rightarrow> False | Inl err \<Rightarrow> True))"
    by blast
  from g3 darwin_derive_bare [of 1000] have sh3: "shellEnv3 = [''SHELL'' \<mapsto> ''/bin/false'']"
    by auto
  have ret3: "darwin_retry ''git-lfs'' [''version''] (retry_options shellEnv3 None) = Inl ?e2"
    by (simp add: darwin_retry_def)
  from sh3 have p3: "shellEnv3 ''PATH'' = None" by simp
  from at3 ret3 have at3': "\<not> pathFixAttempted s''" by simp
  from su3 p3 have su3': "\<not> pathFixSucceeded s''" by simp
  from el3 p3 ret3 have el3': "eligible darwin_host s'' ?e2"
    by (simp add: is_ENOENT_def)
  from r3 ret3 p3 at3' su3' el3'
  have C: "\<exists>shellEnv s'.
        execWithShellEnv darwin_host darwin_retry 1000 ''git-lfs'' [''version''] None ?sb
          = (Inl ?e2, s',
             [Exec ''git-lfs'' [''version''] (with_utf8 None), Derive,
              Exec ''git-lfs'' [''version''] (retry_options shellEnv None)])
      \<and> shellEnv ''PATH'' = None
      \<and> \<not> pathFixAttempted s' \<and> \<not> pathFixSucceeded s'
      \<and> eligible darwin_host s' ?e2"
    by auto
  from A B C show ?thesis by blast
qed

subsection \<open>PATH and HOME in the derived environment\<close>

lemma derive_windows_vars:
  "derive_windows h now s = Inr (m, s') \<Longrightarrow>
     m ''PATH'' = Some (git_buildWindowsPath h (process_env s)) \<and> m ''HOME'' = Some (homedir h)"
  by (auto simp: derive_windows_def string_entries_lookup Let_def split: sum.splits)

text \<open>
  C5, as the code has it: a map that \<open>getShellEnvironment\<close> derives on Windows has
  \<open>PATH\<close>, the built path, which is not empty when \<open>path.normalize\<close> never returns the
  empty string, and \<open>HOME\<close>. Off Windows, after a successful spawn, the map has a key
  other than \<open>__proto__\<close> exactly when the shell printed a line \<open>key=value\<close> for it,
  with a value that was printed; after a failed spawn it holds under such a key the
  string that \<open>process.env\<close> holds there, if any. Neither branch stores anything under
  \<open>__proto__\<close>, and neither adds \<open>PATH\<close> or \<open>HOME\<close> itself.
\<close>

theorem getShellEnvironment_path_home:
  "cache_miss now s \<and> getShellEnvironment h now s = Inr (m, s') \<longrightarrow>
     (platform h = ''win32'' \<longrightarrow>
        m ''PATH'' = Some (git_buildWindowsPath h (process_env s))
      \<and> m ''HOME'' = Some (homedir h)
      \<and> ((\<forall>p. normalize h p \<noteq> []) \<longrightarrow> git_buildWindowsPath h (process_env s) \<noteq> []))
   \<and> (platform h \<noteq> ''win32'' \<longrightarrow>
        (\<forall>out err. shell_spawn h s = Inr (out, err) \<longrightarrow>
           (\<forall>k. (m k \<noteq> None) =
                 (k \<noteq> ''__proto__''
                  \<and> (\<exists>l \<in> set (split_on CHR ''\<newline>'' out). \<exists>v. env_line k v l)))
         \<and> (\<forall>k v. m k = Some v \<longrightarrow> (\<exists>l \<in> set (split_on CHR ''\<newline>'' out). env_line k v l)))
      \<and> (\<forall>e. shell_spawn h s = Inl e \<longrightarrow>
           (\<forall>k. m k = (if k = ''__proto__'' then None
                        else case process_env s k of Some (Str v) \<Rightarrow> Some v | _ \<Rightarrow> None))))"
proof (intro impI conjI allI)
  assume a: "cache_miss now s \<and> getShellEnvironment h now s = Inr (m, s')" and w: "platform h = ''win32''"
  then have cm: "cache_miss now s" and g: "getShellEnvironment h now s = Inr (m, s')"
    by simp_all
  from getShellEnvironment_miss [OF cm, of h] g w have d: "derive_windows h now s = Inr (m, s')"
    by simp
  from derive_windows_vars [OF d]
  show "m ''PATH'' = Some (git_buildWindowsPath h (process_env s))" "m ''HOME'' = Some (homedir h)"
    by simp_all
next
  assume "\<forall>p. normalize h p \<noteq> []"
  then show "git_buildWindowsPath h (process_env s) \<noteq> []"
    by (intro git_buildWindowsPath_nonempty) simp
next
  fix out err k
  assume a: "cache_miss now s \<and> getShellEnvironment h now s = Inr (m, s')"
    and w: "platform h \<noteq> ''win32''" and sp: "shell_spawn h s = Inr (out, err)"
  then have "m = parse_env_lines (split_on CHR ''\<newline>'' out)"
    using getShellEnvironment_full [of h now s out err] by simp
  then show "(m k \<noteq> None) =
      (k \<noteq> ''__proto__'' \<and> (\<exists>l \<in> set (split_on CHR ''\<newline>'' out). \<exists>v. env_line k v l))"
    by (simp only: parse_env_lines_key)
next
  fix out err k v
  assume a: "cache_miss now s \<and> getShellEnvironment h now s = Inr (m, s')"
    and w: "platform h \<noteq> ''win32''" and sp: "shell_spawn h s = Inr (out, err)"
    and mk: "m k = Some v"
  then have "m = parse_env_lines (split_on CHR ''\<newline>'' out)"
    using getShellEnvironment_full [of h now s out err] by simp
  with mk show "\<exists>l \<in> set (split_on CHR ''\<newline>'' out). env_line k v l"
    by (simp only: parse_env_lines_value)
next
  fix e k
  assume a: "cache_miss now s \<and> getShellEnvironment h now s = Inr (m, s')"
    and w: "platform h \<noteq> ''win32''" and sp: "shell_spawn h s = Inl e"
  then have "m = string_entries (process_env s)"
    using getShellEnvironment_fallback [of h now s e] by simp
  then show "m k = (if k = ''__proto__'' then None
                    else case process_env s k of Some (Str v) \<Rightarrow> Some v | _ \<Rightarrow> None)"
    by (simp only: string_entries_lookup)
qed

text \<open>
  The claim as stated fails: with \<open>SHELL=/bin/true\<close> the spawn succeeds and prints
  nothing, so the map of this full derivation is empty; and when the spawn fails in a
  process that has no \<open>PATH\<close>, the fallback has none.
\<close>

theorem getShellEnvironment_path_counterexample:
  "(\<exists>s'. getShellEnvironment linux_host 1000
            (module_init [''SHELL'' \<mapsto> Str ''/bin/true'', ''PATH'' \<mapsto> Str ''/usr/bin'',
                          ''HOME'' \<mapsto> Str ''/home/u'']) = Inr (Map.empty, s')
        \<and> \<not> isFallbackCache s')
 \<and> (\<exists>m s'. getShellEnvironment linux_host 1000
            (module_init [''SHELL'' \<mapsto> Str ''/bin/false'', ''HOME'' \<mapsto> Str ''/home/u''])
          = Inr (m, s')
        \<and> m ''PATH'' = None \<and> isFallbackCache s')"
proof -
  let ?s1 = "module_init [''SHELL'' \<mapsto> Str ''/bin/true'', ''PATH'' \<mapsto> Str ''/usr/bin'',
                          ''HOME'' \<mapsto> Str ''/home/u'']"
  let ?s2 = "module_init [''SHELL'' \<mapsto> Str ''/bin/false'', ''HOME'' \<mapsto> Str ''/home/u'']"
  have m1: "cache_miss 1000 ?s1" and m2: "cache_miss 1000 ?s2"
    by (simp_all add: cache_miss_def module_init_def)
  have sp1: "shell_spawn linux_host ?s1 = Inr ([], [])"
    by (simp add: shell_spawn_def module_init_def linux_host_def linux_exec_def)
  have sp2: "shell_spawn linux_host ?s2 = Inl (ErrorObj (Some ''ENOENT'') ''spawn /bin/false ENOENT'')"
    by (simp add: shell_spawn_def module_init_def linux_host_def linux_exec_def)
  have pl: "platform linux_host \<noteq> ''win32''" by (simp add: linux_host_def)
  have e: "parse_env_lines [[]] = Map.empty"
    by (simp add: parse_env_lines_def parse_env_line_def)
  have A: "\<exists>s'. getShellEnvironment linux_host 1000 ?s1 = Inr (Map.empty, s') \<and> \<not> isFallbackCache s'"
    using getShellEnvironment_full [OF pl m1 sp1] e by simp
  have "string_entries (process_env ?s2) ''PATH'' = None"
    by (simp add: string_entries_lookup module_init_def)
  then have B: "\<exists>m s'. getShellEnvironment linux_host 1000 ?s2 = Inr (m, s')
        \<and> m ''PATH'' = None \<and> isFallbackCache s'"
    using getShellEnvironment_fallback [OF pl m2 sp2] by simp
  from A B show ?thesis by blast
qed

theorem getShellEnvironment_path_home_witness:
  "cache_miss 1000 (module_init [''PATH'' \<mapsto> Str ''/usr/bin''])
 \<and> (\<exists>m s'. getShellEnvironment linux_host 1000 (module_init [''PATH'' \<mapsto> Str ''/usr/bin''])
              = Inr (m, s')
        \<and> m ''PATH'' = Some ''/usr/local/bin:/usr/bin'' \<and> m ''HOME'' \<noteq> None \<and> m ''TERM'' = None)
 \<and> (\<exists>m s'. getShellEnvironment win_host 1000 (module_init Map.empty) = Inr (m, s')
        \<and> m ''HOME'' = Some (win_path [''C:'', ''Users'', ''u''])
        \<and> m ''PATH'' = Some (git_buildWindowsPath win_host Map.empty)
        \<and> git_buildWindowsPath win_host Map.empty \<noteq> [])"
proof -
  let ?s = "module_init [''PATH'' \<mapsto> Str ''/usr/bin'']"
  let ?out = "''PATH=/usr/local/bin:/usr/bin\<newline>HOME=/home/u\<newline>''"
  let ?w = "module_init Map.empty"
  have cm: "cache_miss 1000 ?s" and cw: "cache_miss 1000 ?w"
    by (simp_all add: cache_miss_def module_init_def)
  have pl: "platform linux_host \<noteq> ''win32''" and pw: "platform win_host = ''win32''"
    by (simp_all add: linux_host_def win_host_def)
  have sp: "shell_spawn linux_host ?s = Inr (?out, [])"
    by (simp add: shell_spawn_def module_init_def linux_host_def linux_exec_def)
  from getShellEnvironment_full [OF pl cm sp] obtain m s' where
    g: "getShellEnvironment linux_host 1000 ?s = Inr (m, s')" by blast
  have lines: "split_on CHR ''\<newline>'' ?out = [''PATH=/usr/local/bin:/usr/bin'', ''HOME=/home/u'', []]"
    by simp
  have l1: "env_line ''PATH'' ''/usr/local/bin:/usr/bin'' ''PATH=/usr/local/bin:/usr/bin''"
    and l2: "env_line ''HOME'' ''/home/u'' ''HOME=/home/u''"
    by (simp_all add: env_line_def)
  note th = getShellEnvironment_path_home [of 1000 ?s linux_host m s']
  from th [THEN mp, OF conjI [OF cm g], THEN conjunct2, THEN mp, OF pl, THEN conjunct1,
      THEN spec, THEN spec, THEN mp, OF sp]
  have kv: "(\<forall>k. (m k \<noteq> None) =
                 (k \<noteq> ''__proto__''
                  \<and> (\<exists>l \<in> set (split_on CHR ''\<newline>'' ?out). \<exists>v. env_line k v l)))
         \<and> (\<forall>k v. m k = Some v \<longrightarrow> (\<exists>l \<in> set (split_on CHR ''\<newline>'' ?out). env_line k v l))" .
  from kv have key: "(m k \<noteq> None) =
      (k \<noteq> ''__proto__'' \<and> (\<exists>l \<in> set (split_on CHR ''\<newline>'' ?out). \<exists>v. env_line k v l))" for k
    by simp
  from kv have val: "m k = Some v \<Longrightarrow> \<exists>l \<in> set (split_on CHR ''\<newline>'' ?out). env_line k v l" for k v
    by simp
  from key [of "''PATH''"] l1 have "m ''PATH'' \<noteq> None"
    unfolding lines by auto
  then obtain v where v: "m ''PATH'' = Some v" by auto
  from val [OF v] have "env_line ''PATH'' v ''PATH=/usr/local/bin:/usr/bin''"
    unfolding lines by (auto simp: env_line_def)
  with l1 have "v = ''/usr/local/bin:/usr/bin''"
    by (simp add: env_line_def)
  with v have P: "m ''PATH'' = Some ''/usr/local/bin:/usr/bin''" by simp
  from key [of "''HOME''"] l2 have H: "m ''HOME'' \<noteq> None"
    unfolding lines by auto
  from key [of "''TERM''"] have T: "m ''TERM'' = None"
    unfolding lines by (auto simp: env_line_def)
  have "derive_windows win_host 1000 ?w \<noteq> Inl e" for e
    by (simp add: derive_windows_def win_host_def linux_host_def Let_def)
  then obtain m2 s2 where "derive_windows win_host 1000 ?w = Inr (m2, s2)"
    by (cases "derive_windows win_host 1000 ?w") auto
  with getShellEnvironment_miss [OF cw, of win_host] pw
  have gw: "getShellEnvironment win_host 1000 ?w = Inr (m2, s2)" by simp
  have nz: "\<forall>p. normalize win_host p \<noteq> []"
    by (simp add: win_host_def linux_host_def)
  note tw = getShellEnvironment_path_home [of 1000 ?w win_host m2 s2]
  from tw cw gw pw nz
  have W: "m2 ''PATH'' = Some (git_buildWindowsPath win_host (process_env ?w))"
    "m2 ''HOME'' = Some (homedir win_host)"
    "git_buildWindowsPath win_host (process_env ?w) \<noteq> []"
    by blast+
  have pe: "process_env ?w = Map.empty" "homedir win_host = win_path [''C:'', ''Users'', ''u'']"
    by (simp_all add: module_init_def win_host_def)
  from cm g P H T gw W show ?thesis unfolding pe by blast
qed

subsection \<open>The steps of resolveClaudeCli\<close>

lemma validateCliPath_reason_nonempty: "validateCliPath h p = Some r \<Longrightarrow> r \<noteq> []"
  by (auto simp: validateCliPath_def validate_body_def validate_stat_def Let_def
      split: sum.splits if_splits)

lemma is_set_validateCliPath: "is_set (validateCliPath h p) = (validateCliPath h p \<noteq> None)"
  using validateCliPath_reason_nonempty [of h p]
  by (cases "validateCliPath h p") auto

lemma resolveClaudeCli_resolving:
  "resolving options cache \<Longrightarrow>
     resolveClaudeCli h now stamp options (cache, s) =
       (let opts = with_defaults options;
            env = resolution_env h now s;
            tc = try_configured h (configuredPath opts);
            result = classify h (fst env) (configuredPath opts)
                       (try_path h (fst env) (fst tc)) (snd tc)
        in (result, Some (to_cache result stamp), snd env))"
  by (auto simp: resolveClaudeCli_def resolving_def Let_def split: prod.splits option.splits)

lemma classify_shape: "shape_ok (classify h env configured rp ve)"
proof (cases rp)
  case None
  then show ?thesis by (simp add: classify_def shape_ok_def)
next
  case (Some p)
  then show ?thesis
    by (auto simp: classify_def shape_ok_def Let_def is_set_validateCliPath
        split: option.splits)
qed

lemma shape_ok_cache: "shape_ok (to_cache r t) = shape_ok r" "shape_ok (from_cache c) = shape_ok c"
  by (simp_all add: shape_ok_def to_cache_def from_cache_def)

lemma resolveClaudeCli_shape_step:
  "cache_shape_ok cache \<Longrightarrow> resolveClaudeCli h now stamp options (cache, s) = (r, cache', s') \<Longrightarrow>
     shape_ok r \<and> cache_shape_ok cache'"
proof (cases "resolving options cache")
  case True
  assume "resolveClaudeCli h now stamp options (cache, s) = (r, cache', s')"
  with resolveClaudeCli_resolving [OF True, of h now stamp s]
  show ?thesis
    by (auto simp: Let_def cache_shape_ok_def shape_ok_cache classify_shape)
next
  case False
  assume ok: "cache_shape_ok cache"
    and run: "resolveClaudeCli h now stamp options (cache, s) = (r, cache', s')"
  from False obtain c where c: "cache = Some c" "\<not> skipCache (with_defaults options)"
    by (auto simp: resolving_def)
  with run have "r = from_cache c" "cache' = cache"
    by (auto simp: resolveClaudeCli_def Let_def)
  with ok c show ?thesis by (simp add: cache_shape_ok_def shape_ok_cache)
qed

lemma run_calls_shape:
  "cache_shape_ok (fst st) \<Longrightarrow>
     (\<forall>r \<in> set (fst (run_calls cs st)). shape_ok r) \<and> cache_shape_ok (fst (snd (run_calls cs st)))"
proof (induction cs arbitrary: st)
  case Nil
  then show ?case by simp
next
  case (Cons c cs)
  show ?case
  proof (cases c)
    case (Resolve h now stamp options)
    obtain r cache' s' where r: "resolveClaudeCli h now stamp options st = (r, cache', s')"
      by (cases "resolveClaudeCli h now stamp options st") auto
    with Cons.prems resolveClaudeCli_shape_step [of "fst st" h now stamp options "snd st" r cache' s']
    have ok: "shape_ok r" "cache_shape_ok cache'" by simp_all
    from Cons.IH [of "(cache', s')"] ok
    have "(\<forall>r \<in> set (fst (run_calls cs (cache', s'))). shape_ok r)
        \<and> cache_shape_ok (fst (snd (run_calls cs (cache', s'))))" by simp
    with Resolve r ok show ?thesis
      by (auto simp: Let_def split: prod.splits)
  next
    case ClearResolution
    with Cons.IH [of "(None, snd st)"] show ?thesis
      by (simp add: clearResolutionCache_def cache_shape_ok_def)
  next
    case (ShellChange f)
    with Cons.IH [of "(fst st, f (snd st))"] Cons.prems show ?thesis by simp
  qed
qed

lemma generic_message_silent:
  "\<not> mentions ''configured path''
        (toLowerCase ''Claude CLI not found in PATH. Install it or configure a custom path in settings.'')"
  by code_simp

lemma classify_missing:
  "\<not> is_set rp \<Longrightarrow>
     classify h env configured rp ve =
       \<lparr>path = None, cli_version = None, status = MISSING,
        error = Some (if is_set configured
                      then ''Configured path invalid: '' @ show_nullable ve
                             @ ''. Also not found in PATH.''
                      else ''Claude CLI not found in PATH. Install it or configure a custom path in settings.'')\<rparr>"
  by (simp add: classify_def)

lemma classify_status_missing: "(status (classify h env configured rp ve) = MISSING) = (\<not> is_set rp)"
  by (cases rp) (auto simp: classify_def Let_def split: option.splits)

lemma try_configured_invalid:
  "is_set cp \<Longrightarrow> validateCliPath h (the cp) = Some reason \<Longrightarrow>
     try_configured h cp = (None, Some reason)"
  using validateCliPath_reason_nonempty [of h "the cp" reason]
  by (cases cp) (auto simp: try_configured_def Let_def)

lemma try_configured_valid:
  "is_set cp \<Longrightarrow> validateCliPath h (the cp) = None \<Longrightarrow>
     try_configured h cp = (Some (resolve h (the cp)), None)"
  by (cases cp) (auto simp: try_configured_def Let_def)

lemma try_configured_absent:
  "\<not> is_set cp \<Longrightarrow> try_configured h cp = (None, None)"
  by (cases cp) (auto simp: try_configured_def Let_def)

subsection \<open>Resolution on the concrete hosts\<close>

lemma resolveFromPath_bare: "resolveFromPath bare_host env = None"
  by (simp add: resolveFromPath_def bare_host_def linux_host_def)

lemma trim_which: "trim ''/usr/bin/claude\<newline>'' = ''/usr/bin/claude''"
  by (simp add: trim_def is_space_def)

lemma resolveFromPath_linux: "resolveFromPath linux_host env = Some ''/usr/bin/claude''"
  by (simp add: resolveFromPath_def linux_host_def linux_exec_def trim_which)

lemma parseVersion_linux:
  "parseVersion ''2.1.5 (Claude Code)\<newline>'' =
     Some \<lparr>version = ''2.1.5'', major = 2, minor = 1, patch = 5, isCompatible = True\<rparr>"
  by code_simp

lemma getCliVersion_linux:
  "getCliVersion linux_host ''/usr/bin/claude'' env =
     Some \<lparr>version = ''2.1.5'', major = 2, minor = 1, patch = 5, isCompatible = True\<rparr>"
  by (simp add: getCliVersion_def linux_host_def linux_exec_def parseVersion_linux)

lemma validate_linux_claude: "validateCliPath linux_host ''/usr/bin/claude'' = None"
  by (simp add: validateCliPath_def validate_body_def validate_stat_def linux_host_def
      linux_stat_def S_IXUSR_def)

lemma validate_linux_stale:
  "validateCliPath linux_host ''/opt/claude/bin/claude'' = Some ''CLI path does not exist''"
  by (simp add: validateCliPath_def validate_body_def validate_stat_def linux_host_def
      linux_stat_def)

lemma validate_bare_stale:
  "validateCliPath bare_host ''/opt/claude/bin/claude'' = Some ''CLI path does not exist''"
  by (simp add: validateCliPath_def validate_body_def validate_stat_def linux_host_def
      bare_host_def)

lemma classify_linux_found:
  "classify linux_host env configured (Some ''/usr/bin/claude'') None =
     \<lparr>path = Some ''/usr/bin/claude'',
      cli_version = Some \<lparr>version = ''2.1.5'', major = 2, minor = 1, patch = 5, isCompatible = True\<rparr>,
      status = OK, error = None\<rparr>"
  by (simp add: classify_def validate_linux_claude getCliVersion_linux)

lemma classify_linux_stale:
  "classify linux_host env configured (Some ''/usr/bin/claude'') (Some ''CLI path does not exist'') =
     \<lparr>path = Some ''/usr/bin/claude'', cli_version = None, status = VALIDATION_ERROR,
      error = Some ''CLI path does not exist''\<rparr>"
  by (simp add: classify_def)

subsection \<open>The shape of a resolution\<close>

text \<open>
  C10: in every history of the module, from its initial state with an empty cache, every
  resolution that \<open>resolveClaudeCli\<close> returns and the one left in the cache have the
  shape \<open>shape_ok\<close>: \<open>path\<close> is \<open>null\<close> exactly when the status is \<open>MISSING\<close>; \<open>OK\<close>
  comes with a compatible version and no error; \<open>VALIDATION_ERROR\<close> and
  \<open>VERSION_INCOMPATIBLE\<close> come with a path and a non-empty error.
\<close>

theorem resolveClaudeCli_result_shape:
  "(\<forall>r \<in> set (fst (run_calls cs (None, s))). shape_ok r)
 \<and> cache_shape_ok (fst (snd (run_calls cs (None, s))))"
  using run_calls_shape [of "(None, s)" cs] by (simp add: cache_shape_ok_def)

theorem resolveClaudeCli_result_shape_witness:
  "fst (run_calls
         [Resolve linux_host 1000 1001 None,
          Resolve bare_host 2000 2001 None,
          ClearResolution,
          Resolve bare_host 3000 3001 None]
         (None, module_init [''PATH'' \<mapsto> Str ''/usr/bin'']))
     = [\<lparr>path = Some ''/usr/bin/claude'',
         cli_version = Some \<lparr>version = ''2.1.5'', major = 2, minor = 1, patch = 5,
                              isCompatible = True\<rparr>,
         status = OK, error = None\<rparr>,
        \<lparr>path = Some ''/usr/bin/claude'',
         cli_version = Some \<lparr>version = ''2.1.5'', major = 2, minor = 1, patch = 5,
                              isCompatible = True\<rparr>,
         status = OK, error = None\<rparr>,
        \<lparr>path = None, cli_version = None, status = MISSING,
         error = Some ''Claude CLI not found in PATH. Install it or configure a custom path in settings.''\<rparr>]
 \<and> shape_ok \<lparr>path = None, cli_version = None, status = MISSING,
         error = Some ''Claude CLI not found in PATH. Install it or configure a custom path in settings.''\<rparr>"
proof -
  let ?s = "module_init [''PATH'' \<mapsto> Str ''/usr/bin'']"
  let ?ok = "\<lparr>path = Some ''/usr/bin/claude'',
         cli_version = Some \<lparr>version = ''2.1.5'', major = 2, minor = 1, patch = 5,
                              isCompatible = True\<rparr>,
         status = OK, error = None\<rparr>"
  let ?missing = "\<lparr>path = None, cli_version = None, status = MISSING,
         error = Some ''Claude CLI not found in PATH. Install it or configure a custom path in settings.''\<rparr>"
  let ?calls = "[Resolve linux_host 1000 1001 None, Resolve bare_host 2000 2001 None,
          ClearResolution, Resolve bare_host 3000 3001 None]"
  have r: "resolving None None" by (simp add: resolving_def)
  have c1: "resolveClaudeCli linux_host 1000 1001 None (None, s) =
      (?ok, Some (to_cache ?ok 1001), snd (resolution_env linux_host 1000 s))" for s
    by (simp add: resolveClaudeCli_resolving [OF r] Let_def with_defaults_def try_configured_absent
        try_path_def resolveFromPath_linux classify_linux_found)
  have c2: "resolveClaudeCli bare_host 2000 2001 None (Some c, s) = (from_cache c, Some c, s)" for c s
    by (simp add: resolveClaudeCli_def Let_def with_defaults_def)
  have fc: "from_cache (to_cache r t) = r" for r :: ClaudeCliResolution and t
    by (simp add: from_cache_def to_cache_def)
  have c3: "resolveClaudeCli bare_host 3000 3001 None (None, s) =
      (?missing, Some (to_cache ?missing 3001), snd (resolution_env bare_host 3000 s))" for s
    by (simp add: resolveClaudeCli_resolving [OF r] Let_def with_defaults_def try_configured_absent
        try_path_def resolveFromPath_bare classify_missing)
  have run: "fst (run_calls ?calls (None, ?s)) = [?ok, ?ok, ?missing]"
    by (simp add: c1 c2 c3 fc clearResolutionCache_def)
  from resolveClaudeCli_result_shape [of ?calls ?s]
  have "\<forall>r \<in> set (fst (run_calls ?calls (None, ?s))). shape_ok r" by blast
  then have "shape_ok ?missing" unfolding run by simp
  with run show ?thesis by simp
qed

subsection \<open>The result when no path is found\<close>

text \<open>
  C8: a call that resolves has the status \<open>MISSING\<close> exactly when neither the configured
  path nor the lookup in \<open>PATH\<close> gives a path. Then, when a configured path was given and
  rejected, the message names the rejection and says that the CLI was not found in
  \<open>PATH\<close> either; when no configured path was given (absent, \<open>null\<close> or empty), the
  message is the install-or-configure hint, which does not contain the words
  \<open>configured path\<close>.
\<close>

theorem resolveClaudeCli_missing_message:
  "resolving options cache \<longrightarrow>
     (let cp = configuredPath (with_defaults options);
          env = fst (resolution_env h now s);
          r = fst (resolveClaudeCli h now stamp options (cache, s))
      in (status r = MISSING) = (\<not> is_set (try_path h env (fst (try_configured h cp))))
       \<and> (is_set cp \<and> validateCliPath h (the cp) = Some reason \<and> \<not> is_set (resolveFromPath h env) \<longrightarrow>
            r = \<lparr>path = None, cli_version = None, status = MISSING,
                 error = Some (''Configured path invalid: '' @ reason
                               @ ''. Also not found in PATH.'')\<rparr>)
       \<and> (\<not> is_set cp \<and> \<not> is_set (resolveFromPath h env) \<longrightarrow>
            r = \<lparr>path = None, cli_version = None, status = MISSING,
                 error = Some ''Claude CLI not found in PATH. Install it or configure a custom path in settings.''\<rparr>
          \<and> \<not> mentions ''configured path'' (toLowerCase (the (error r)))))"
proof
  assume res: "resolving options cache"
  let ?cp = "configuredPath (with_defaults options)"
  let ?env = "fst (resolution_env h now s)"
  let ?tc = "try_configured h ?cp"
  let ?r = "fst (resolveClaudeCli h now stamp options (cache, s))"
  have r: "?r = classify h ?env ?cp (try_path h ?env (fst ?tc)) (snd ?tc)"
    using resolveClaudeCli_resolving [OF res, of h now stamp s] by (simp add: Let_def)
  have A: "(status ?r = MISSING) = (\<not> is_set (try_path h ?env (fst ?tc)))"
    by (simp only: r classify_status_missing)
  have B: "?r = \<lparr>path = None, cli_version = None, status = MISSING,
                 error = Some (''Configured path invalid: '' @ reason
                               @ ''. Also not found in PATH.'')\<rparr>"
    if "is_set ?cp \<and> validateCliPath h (the ?cp) = Some reason \<and> \<not> is_set (resolveFromPath h ?env)"
  proof -
    from that have "?tc = (None, Some reason)" by (simp add: try_configured_invalid)
    with that show ?thesis
      by (simp add: r try_path_def classify_missing show_nullable_def)
  qed
  have C: "?r = \<lparr>path = None, cli_version = None, status = MISSING,
                 error = Some ''Claude CLI not found in PATH. Install it or configure a custom path in settings.''\<rparr>
          \<and> \<not> mentions ''configured path'' (toLowerCase (the (error ?r)))"
    if "\<not> is_set ?cp \<and> \<not> is_set (resolveFromPath h ?env)"
  proof -
    from that have "?tc = (None, None)" by (simp add: try_configured_absent)
    with that have "?r = \<lparr>path = None, cli_version = None, status = MISSING,
                 error = Some ''Claude CLI not found in PATH. Install it or configure a custom path in settings.''\<rparr>"
      by (simp add: r try_path_def classify_missing)
    then show ?thesis using generic_message_silent by simp
  qed
  from A B C show "let cp = ?cp; env = ?env; r = ?r
      in (status r = MISSING) = (\<not> is_set (try_path h env (fst (try_configured h cp))))
       \<and> (is_set cp \<and> validateCliPath h (the cp) = Some reason \<and> \<not> is_set (resolveFromPath h env) \<longrightarrow>
            r = \<lparr>path = None, cli_version = None, status = MISSING,
                 error = Some (''Configured path invalid: '' @ reason
                               @ ''. Also not found in PATH.'')\<rparr>)
       \<and> (\<not> is_set cp \<and> \<not> is_set (resolveFromPath h env) \<longrightarrow>
            r = \<lparr>path = None, cli_version = None, status = MISSING,
                 error = Some ''Claude CLI not found in PATH. Install it or configure a custom path in settings.''\<rparr>
          \<and> \<not> mentions ''configured path'' (toLowerCase (the (error r))))"
    unfolding Let_def by blast
qed

theorem resolveClaudeCli_missing_message_witness:
  "resolving None None
 \<and> fst (resolveClaudeCli bare_host 1000 1001 None (None, module_init [''PATH'' \<mapsto> Str ''/usr/bin'']))
      = \<lparr>path = None, cli_version = None, status = MISSING,
         error = Some ''Claude CLI not found in PATH. Install it or configure a custom path in settings.''\<rparr>
 \<and> fst (resolveClaudeCli bare_host 1000 1001
           (Some \<lparr>configuredPath = Some ''/opt/claude/bin/claude'', skipCache = True\<rparr>)
           (None, module_init [''PATH'' \<mapsto> Str ''/usr/bin'']))
      = \<lparr>path = None, cli_version = None, status = MISSING,
         error = Some ''Configured path invalid: CLI path does not exist. Also not found in PATH.''\<rparr>"
proof -
  let ?s = "module_init [''PATH'' \<mapsto> Str ''/usr/bin'']"
  let ?o = "Some \<lparr>configuredPath = Some ''/opt/claude/bin/claude'', skipCache = True\<rparr>"
  have r1: "resolving None None" and r2: "resolving ?o None"
    by (simp_all add: resolving_def)
  from resolveClaudeCli_missing_message [of None None bare_host 1000 ?s 1001] r1
  have A: "fst (resolveClaudeCli bare_host 1000 1001 None (None, ?s))
      = \<lparr>path = None, cli_version = None, status = MISSING,
         error = Some ''Claude CLI not found in PATH. Install it or configure a custom path in settings.''\<rparr>"
    by (simp add: Let_def with_defaults_def resolveFromPath_bare)
  from resolveClaudeCli_missing_message [of ?o None bare_host 1000 ?s 1001 "''CLI path does not exist''"] r2
  have B: "fst (resolveClaudeCli bare_host 1000 1001 ?o (None, ?s))
      = \<lparr>path = None, cli_version = None, status = MISSING,
         error = Some ''Configured path invalid: CLI path does not exist. Also not found in PATH.''\<rparr>"
    by (simp add: Let_def with_defaults_def resolveFromPath_bare validate_bare_stale)
  from r1 A B show ?thesis by simp
qed

subsection \<open>Precedence of the configured path\<close>

text \<open>A valid configured path is the path of the result, whatever the lookup in \<open>PATH\<close>
  would find: the lookup is not consulted.\<close>

lemma resolveClaudeCli_configured_precedence:
  assumes "resolving options cache"
    and "configuredPath (with_defaults options) = Some cp" "cp \<noteq> []"
    and "validateCliPath h cp = None" "resolve h cp \<noteq> []"
  shows "fst (resolveClaudeCli h now stamp options (cache, s)) =
           classify h (fst (resolution_env h now s)) (Some cp) (Some (resolve h cp)) None"
    and "path (fst (resolveClaudeCli h now stamp options (cache, s))) = Some (resolve h cp)"
proof -
  from assms have tc: "try_configured h (Some cp) = (Some (resolve h cp), None)"
    by (simp add: try_configured_valid)
  with assms show r: "fst (resolveClaudeCli h now stamp options (cache, s)) =
           classify h (fst (resolution_env h now s)) (Some cp) (Some (resolve h cp)) None"
    by (simp add: resolveClaudeCli_resolving Let_def try_path_def)
  from assms show "path (fst (resolveClaudeCli h now stamp options (cache, s))) = Some (resolve h cp)"
    unfolding r by (auto simp: classify_def Let_def split: option.splits)
qed

text \<open>An invalid configured path leaves its reason in \<open>validationError\<close>; when the lookup
  in \<open>PATH\<close> then finds an executable, step 4 does not validate it and reports the stale
  reason against it.\<close>

lemma resolveClaudeCli_stale_validation_error:
  assumes "resolving options cache"
    and "configuredPath (with_defaults options) = Some cp" "cp \<noteq> []"
    and "validateCliPath h cp = Some reason"
    and "resolveFromPath h (fst (resolution_env h now s)) = Some p" "p \<noteq> []"
  shows "fst (resolveClaudeCli h now stamp options (cache, s)) =
           \<lparr>path = Some p, cli_version = None, status = VALIDATION_ERROR, error = Some reason\<rparr>"
proof -
  from assms have tc: "try_configured h (Some cp) = (None, Some reason)"
    by (simp add: try_configured_invalid)
  from assms have "reason \<noteq> []" by (simp add: validateCliPath_reason_nonempty)
  with assms tc show ?thesis
    by (simp add: resolveClaudeCli_resolving Let_def try_path_def classify_def)
qed

text \<open>
  C2: on a machine whose configured path \<open>/opt/claude/bin/claude\<close> does not exist while
  \<open>PATH\<close> holds a valid CLI of version 2.1.5, the resolution falls through to the
  \<open>PATH\<close> entry but reports \<open>VALIDATION_ERROR\<close> with the reason of the configured path,
  where the same machine without a configured path gives \<open>OK\<close>: step 4 validates the
  resolved path only when \<open>validationError\<close> is still \<open>null\<close>, and step 1 has set it.
\<close>

theorem resolveClaudeCli_stale_configured_path:
  "validateCliPath linux_host ''/opt/claude/bin/claude'' = Some ''CLI path does not exist''
 \<and> (\<forall>env. resolveFromPath linux_host env = Some ''/usr/bin/claude'')
 \<and> validateCliPath linux_host ''/usr/bin/claude'' = None
 \<and> (\<forall>env. map_option isCompatible (getCliVersion linux_host ''/usr/bin/claude'' env) = Some True)
 \<and> fst (resolveClaudeCli linux_host 1000 1001
           (Some \<lparr>configuredPath = Some ''/opt/claude/bin/claude'', skipCache = False\<rparr>)
           (None, module_init [''PATH'' \<mapsto> Str ''/usr/bin'']))
      = \<lparr>path = Some ''/usr/bin/claude'', cli_version = None, status = VALIDATION_ERROR,
         error = Some ''CLI path does not exist''\<rparr>
 \<and> fst (resolveClaudeCli linux_host 1000 1001 None
           (None, module_init [''PATH'' \<mapsto> Str ''/usr/bin'']))
      = \<lparr>path = Some ''/usr/bin/claude'',
         cli_version = Some \<lparr>version = ''2.1.5'', major = 2, minor = 1, patch = 5,
                              isCompatible = True\<rparr>,
         status = OK, error = None\<rparr>"
proof -
  let ?s = "module_init [''PATH'' \<mapsto> Str ''/usr/bin'']"
  let ?o = "Some \<lparr>configuredPath = Some ''/opt/claude/bin/claude'', skipCache = False\<rparr>"
  have r1: "resolving ?o None" and r2: "resolving None None"
    by (simp_all add: resolving_def)
  have tc: "try_configured linux_host (Some ''/opt/claude/bin/claude'') = (None, Some ''CLI path does not exist'')"
    by (simp add: try_configured_invalid validate_linux_stale)
  have A: "fst (resolveClaudeCli linux_host 1000 1001 ?o (None, ?s))
      = \<lparr>path = Some ''/usr/bin/claude'', cli_version = None, status = VALIDATION_ERROR,
         error = Some ''CLI path does not exist''\<rparr>"
    by (simp add: resolveClaudeCli_resolving [OF r1] Let_def with_defaults_def tc try_path_def
        resolveFromPath_linux classify_linux_stale)
  have B: "fst (resolveClaudeCli linux_host 1000 1001 None (None, ?s))
      = \<lparr>path = Some ''/usr/bin/claude'',
         cli_version = Some \<lparr>version = ''2.1.5'', major = 2, minor = 1, patch = 5,
                              isCompatible = True\<rparr>,
         status = OK, error = None\<rparr>"
    by (simp add: resolveClaudeCli_resolving [OF r2] Let_def with_defaults_def try_configured_absent
        try_path_def resolveFromPath_linux classify_linux_found)
  from A B show ?thesis
    by (simp add: validate_linux_stale resolveFromPath_linux validate_linux_claude getCliVersion_linux)
qed

subsection \<open>Sensitive keys in the environment for the CLI\<close>

lemma strip_keys_lookup:
  "strip_keys ks e k = (if k \<in> set ks then None else e k)"
  by (induction ks arbitrary: e) auto

lemma strip_keys_free: "sensitive_free (strip_keys STRIPPED_ENV_KEYS e)"
  by (simp add: sensitive_free_def list_all_iff strip_keys_lookup)

lemma claude_windows_free: "claude_windows h pe = Inr m \<Longrightarrow> sensitive_free m"
  by (auto simp: claude_windows_def strip_keys_free split: sum.splits)

lemma claude_shell_free: "claude_shell h pe = Inr m \<Longrightarrow> sensitive_free m"
  by (auto simp: claude_shell_def Let_def strip_keys_free split: sum.splits)

lemma claude_fallback_free: "claude_fallback h pe = Inr m \<Longrightarrow> sensitive_free m"
  by (auto simp: claude_fallback_def Let_def sensitive_free_def STRIPPED_ENV_KEYS_def
      split: sum.splits if_splits)

lemma getClaudeShellEnvironment_free:
  "cache_stripped c \<Longrightarrow> getClaudeShellEnvironment h pe c = Inr (m, c') \<Longrightarrow>
     sensitive_free m \<and> cache_stripped c'"
  by (auto simp: getClaudeShellEnvironment_def cache_stripped_def
      dest: claude_windows_free claude_shell_free claude_fallback_free
      split: option.splits if_splits sum.splits)

lemma sensitive_untouched: "k \<in> set STRIPPED_ENV_KEYS \<Longrightarrow> k \<notin> set touched_keys"
  by (auto simp: STRIPPED_ENV_KEYS_def touched_keys_def)

lemma ensure_critical_other:
  "ensure_critical h pe e = Inr e' \<Longrightarrow> k \<notin> set touched_keys \<Longrightarrow> e' k = e k"
  by (auto simp: ensure_critical_def Let_def touched_keys_def split: if_splits sum.splits)

lemma apply_custom_other:
  "k \<notin> set touched_keys \<Longrightarrow> apply_custom options e k \<noteq> None \<Longrightarrow>
     e k \<noteq> None \<or> supplied pe options k"
  by (auto simp: apply_custom_def supplied_def assign_def Let_def touched_keys_def
      split: option.splits if_splits)

lemma overlay_other:
  "overlay_process_env e pe k \<noteq> None \<Longrightarrow> e k \<noteq> None \<or> supplied pe options k"
  by (auto simp: overlay_process_env_def supplied_def assign_def
      split: option.splits jsval.splits if_splits)

lemma object_assign_lookup:
  "object_assign Map.empty source k = (if k = ''__proto__'' then None else source k)"
  by (auto simp: object_assign_def assign_def split: option.splits)

lemma object_assign_free: "sensitive_free m \<Longrightarrow> sensitive_free (object_assign Map.empty m)"
  by (simp add: sensitive_free_def list_all_iff object_assign_lookup)

lemma buildClaudeEnv_cache:
  "cache_stripped c \<Longrightarrow> buildClaudeEnv h pe options c = Inr (m, c') \<Longrightarrow> cache_stripped c'"
  by (auto simp: buildClaudeEnv_def Let_def dest: getClaudeShellEnvironment_free
      split: sum.splits prod.splits)

lemma buildClaudeEnv_from:
  assumes b: "buildClaudeEnv h pe options c = Inr (m, c')"
  obtains env0 env3 where
    "env0 = (case getClaudeShellEnvironment h pe c of
               Inr (shellEnv, c1) \<Rightarrow> object_assign Map.empty shellEnv
             | Inl err \<Rightarrow> Map.empty)"
    "ensure_critical h pe
       (if truthy (env0 ''PATH'') then (overlay_process_env env0 pe)(''PATH'' := env0 ''PATH'')
        else overlay_process_env env0 pe) = Inr env3"
    "m = (apply_custom options env3)(''CLAUDE_CODE_ENTRYPOINT'' \<mapsto> Str ''sdk-ts'')"
proof (cases "getClaudeShellEnvironment h pe c")
  case (Inl e)
  with b that [of Map.empty] show ?thesis
    by (auto simp: buildClaudeEnv_def Let_def split: sum.splits)
next
  case (Inr r)
  obtain m0 c0 where "r = (m0, c0)" by (cases r)
  with Inr b that [of "object_assign Map.empty m0"] show ?thesis
    by (auto simp: buildClaudeEnv_def Let_def split: sum.splits)
qed

lemma buildClaudeEnv_keys:
  assumes c: "cache_stripped c" and b: "buildClaudeEnv h pe options c = Inr (m, c')"
    and k: "k \<in> set STRIPPED_ENV_KEYS" and mk: "m k \<noteq> None"
  shows "supplied pe options k"
proof -
  from b obtain env0 env3 where
    env0: "env0 = (case getClaudeShellEnvironment h pe c of
               Inr (shellEnv, c1) \<Rightarrow> object_assign Map.empty shellEnv
             | Inl err \<Rightarrow> Map.empty)"
    and e3: "ensure_critical h pe
       (if truthy (env0 ''PATH'') then (overlay_process_env env0 pe)(''PATH'' := env0 ''PATH'')
        else overlay_process_env env0 pe) = Inr env3"
    and m: "m = (apply_custom options env3)(''CLAUDE_CODE_ENTRYPOINT'' \<mapsto> Str ''sdk-ts'')"
    by (rule buildClaudeEnv_from)
  from k have nt: "k \<notin> set touched_keys" by (rule sensitive_untouched)
  have "sensitive_free env0"
  proof (cases "getClaudeShellEnvironment h pe c")
    case (Inl e)
    then show ?thesis by (simp add: env0 sensitive_free_def list_all_iff)
  next
    case (Inr r)
    then obtain m0 c0 where g: "getClaudeShellEnvironment h pe c = Inr (m0, c0)"
      by (cases r) auto
    with getClaudeShellEnvironment_free [OF c g] show ?thesis
      by (simp add: env0 object_assign_free)
  qed
  with k have e0: "env0 k = None" by (simp add: sensitive_free_def list_all_iff)
  from nt m mk have "apply_custom options env3 k \<noteq> None"
    by (auto simp: touched_keys_def)
  from apply_custom_other [OF nt this, of pe]
  show ?thesis
  proof
    assume "env3 k \<noteq> None"
    with ensure_critical_other [OF e3 nt]
    have "(if truthy (env0 ''PATH'') then (overlay_process_env env0 pe)(''PATH'' := env0 ''PATH'')
        else overlay_process_env env0 pe) k \<noteq> None" by simp
    with nt have "overlay_process_env env0 pe k \<noteq> None"
      by (auto simp: touched_keys_def split: if_splits)
    from overlay_other [OF this, of options] e0 show ?thesis by simp
  qed
qed

lemma env_run_ok:
  "cache_stripped c \<Longrightarrow>
     (\<forall>cr \<in> set (fst (env_run cs c)). result_ok cr) \<and> cache_stripped (snd (env_run cs c))"
proof (induction cs arbitrary: c)
  case Nil
  then show ?case by simp
next
  case (Cons call cs)
  show ?case
  proof (cases call)
    case (GetShellEnv h pe)
    show ?thesis
    proof (cases "getClaudeShellEnvironment h pe c")
      case (Inl e)
      with GetShellEnv Cons.IH [OF Cons.prems] show ?thesis
        by (auto split: prod.splits)
    next
      case (Inr r)
      obtain m c' where r: "r = (m, c')" by (cases r)
      with Inr getClaudeShellEnvironment_free [OF Cons.prems, of h pe m c']
      have ok: "sensitive_free m" "cache_stripped c'" by simp_all
      with GetShellEnv Inr r Cons.IH [of c'] show ?thesis
        by (auto split: prod.splits)
    qed
  next
    case (BuildEnv h pe options)
    show ?thesis
    proof (cases "buildClaudeEnv h pe options c")
      case (Inl e)
      with BuildEnv Cons.IH [OF Cons.prems] show ?thesis
        by (auto split: prod.splits)
    next
      case (Inr r)
      obtain m c' where r: "r = (m, c')" by (cases r)
      with Inr have b: "buildClaudeEnv h pe options c = Inr (m, c')" by simp
      from buildClaudeEnv_cache [OF Cons.prems b] have c': "cache_stripped c'" .
      have "list_all (\<lambda>k. m k \<noteq> None \<longrightarrow> supplied pe options k) STRIPPED_ENV_KEYS"
        using buildClaudeEnv_keys [OF Cons.prems b] by (auto simp: list_all_iff)
      with BuildEnv b c' Cons.IH [of c'] show ?thesis
        by (auto split: prod.splits)
    qed
  next
    case ClearEnvCache
    with Cons.IH [of None] show ?thesis
      by (simp add: clearClaudeEnvCache_def cache_stripped_def)
  qed
qed

text \<open>
  C1, as the code has it: in every history of claude/env.ts from its initial empty
  cache, each map returned by \<open>getClaudeShellEnvironment\<close> has none of the keys
  \<open>ANTHROPIC_API_KEY\<close>, \<open>OPENAI_API_KEY\<close>, \<open>CLAUDE_CODE_USE_BEDROCK\<close>,
  \<open>CLAUDE_CODE_USE_VERTEX\<close>, whatever the shell printed and whatever \<open>process.env\<close>
  holds; a map returned by \<open>buildClaudeEnv\<close> has such a key only when \<open>process.env\<close>
  holds a string for it or the custom overrides give it a non-empty value; and the cache
  never holds such a key.
\<close>

theorem claude_env_sensitive_keys:
  "(\<forall>cr \<in> set (fst (env_run cs None)). result_ok cr) \<and> cache_stripped (snd (env_run cs None))"
  using env_run_ok [of None cs] by (simp add: cache_stripped_def)

lemma linux_dump_path: "parseEnvOutput linux_host linux_dump ''PATH'' = Some ''/usr/local/bin:/usr/bin''"
  by code_simp

lemma linux_dump_key: "parseEnvOutput linux_host linux_dump ''ANTHROPIC_API_KEY'' = Some ''sk-ant-1''"
  by code_simp

lemma ensure_critical_returns:
  "userInfo_username h = Inr u \<Longrightarrow> \<exists>e'. ensure_critical h pe e = Inr e'"
  by (simp add: ensure_critical_def Let_def)

lemma buildClaudeEnv_eq:
  "buildClaudeEnv h pe options c =
     (let g = getClaudeShellEnvironment h pe c;
          env0 = (case g of Inr (shellEnv, c1) \<Rightarrow> object_assign Map.empty shellEnv
                  | Inl err \<Rightarrow> Map.empty);
          cache' = (case g of Inr (shellEnv, c1) \<Rightarrow> c1 | Inl err \<Rightarrow> c);
          env2 = (if truthy (env0 ''PATH'')
                  then (overlay_process_env env0 pe)(''PATH'' := env0 ''PATH'')
                  else overlay_process_env env0 pe)
      in case ensure_critical h pe env2 of
           Inl t \<Rightarrow> Inl t
         | Inr env3 \<Rightarrow>
             Inr ((apply_custom options env3)(''CLAUDE_CODE_ENTRYPOINT'' \<mapsto> Str ''sdk-ts''),
                  cache'))"
  by (auto simp: buildClaudeEnv_def Let_def split: sum.splits prod.splits)

lemma ensure_critical_not_Inl: "userInfo_username h = Inr u \<Longrightarrow> ensure_critical h pe e \<noteq> Inl t"
  by (simp add: ensure_critical_def Let_def)

lemma buildClaudeEnv_returns:
  assumes u: "userInfo_username h = Inr u"
  shows "\<exists>m c'. buildClaudeEnv h pe options c = Inr (m, c')
           \<and> m ''CLAUDE_CODE_ENTRYPOINT'' = Some (Str ''sdk-ts'')"
  unfolding buildClaudeEnv_eq Let_def
  using ensure_critical_not_Inl [OF u]
  by (auto split: sum.splits)

text \<open>\<open>buildClaudeEnv\<close> hands out whatever string \<open>process.env\<close> holds under a key that the
  later steps do not assign, the keys of \<open>STRIPPED_ENV_KEYS\<close> included (\<open>__proto__\<close> apart,
  under which no assignment stores anything).\<close>

lemma buildClaudeEnv_overlay_kept:
  assumes u: "userInfo_username h = Inr u" and pk: "pe k = Some (Str v)"
    and nt: "k \<notin> set touched_keys" and np: "k \<noteq> ''__proto__''"
  shows "\<exists>m c'. buildClaudeEnv h pe None c = Inr (m, c') \<and> m k = Some (Str v)"
proof -
  define env0 where "env0 =
    (case getClaudeShellEnvironment h pe c of
       Inr (shellEnv, c1) \<Rightarrow> object_assign Map.empty shellEnv
     | Inl err \<Rightarrow> Map.empty)"
  define env2 where "env2 =
    (if truthy (env0 ''PATH'') then (overlay_process_env env0 pe)(''PATH'' := env0 ''PATH'')
     else overlay_process_env env0 pe)"
  from ensure_critical_returns [OF u] obtain env3 where e3: "ensure_critical h pe env2 = Inr env3"
    by blast
  from pk nt np have "env2 k = Some (Str v)"
    by (auto simp: env2_def overlay_process_env_def assign_def touched_keys_def)
  with ensure_critical_other [OF e3 nt] have "env3 k = Some (Str v)" by simp
  with nt have k3: "((apply_custom None env3)(''CLAUDE_CODE_ENTRYPOINT'' \<mapsto> Str ''sdk-ts'')) k = Some (Str v)"
    by (auto simp: apply_custom_def touched_keys_def)
  have "\<exists>c'. buildClaudeEnv h pe None c =
      Inr ((apply_custom None env3)(''CLAUDE_CODE_ENTRYPOINT'' \<mapsto> Str ''sdk-ts''), c')"
    using e3 unfolding buildClaudeEnv_eq [of h pe None c] env2_def env0_def Let_def by simp
  with k3 show ?thesis by blast
qed

text \<open>
  The claim as stated fails for two of the three functions: \<open>buildClaudeEnv\<close> lays
  \<open>process.env\<close> over the stripped shell environment, and \<open>getShellEnvironment\<close> of
  shell-env.ts strips nothing.
\<close>

theorem claude_env_sensitive_keys_counterexample:
  "(\<exists>m c. buildClaudeEnv linux_host
             [''ANTHROPIC_API_KEY'' \<mapsto> Str ''sk-ant-1'', ''PATH'' \<mapsto> Str ''/usr/bin''] None None
           = Inr (m, c)
        \<and> m ''ANTHROPIC_API_KEY'' = Some (Str ''sk-ant-1''))
 \<and> (\<exists>m s'. getShellEnvironment linux_host 1000
              (module_init [''ANTHROPIC_API_KEY'' \<mapsto> Str ''sk-ant-1'', ''SHELL'' \<mapsto> Str ''/bin/false''])
           = Inr (m, s')
        \<and> m ''ANTHROPIC_API_KEY'' = Some ''sk-ant-1'')"
proof -
  let ?pe = "[''ANTHROPIC_API_KEY'' \<mapsto> Str ''sk-ant-1'', ''PATH'' \<mapsto> Str ''/usr/bin'']"
  let ?s = "module_init [''ANTHROPIC_API_KEY'' \<mapsto> Str ''sk-ant-1'', ''SHELL'' \<mapsto> Str ''/bin/false'']"
  have u: "userInfo_username linux_host = Inr ''u''" by (simp add: linux_host_def)
  have pk: "?pe ''ANTHROPIC_API_KEY'' = Some (Str ''sk-ant-1'')" by simp
  have nt: "''ANTHROPIC_API_KEY'' \<notin> set touched_keys" by (simp add: touched_keys_def)
  have A: "\<exists>m c. buildClaudeEnv linux_host ?pe None None = Inr (m, c)
        \<and> m ''ANTHROPIC_API_KEY'' = Some (Str ''sk-ant-1'')"
    using buildClaudeEnv_overlay_kept [of linux_host "''u''" ?pe "''ANTHROPIC_API_KEY''" "''sk-ant-1''" None]
      u pk nt by simp
  have pl: "platform linux_host \<noteq> ''win32''" by (simp add: linux_host_def)
  have cm: "cache_miss 1000 ?s" by (simp add: cache_miss_def module_init_def)
  have sp: "shell_spawn linux_host ?s = Inl (ErrorObj (Some ''ENOENT'') ''spawn /bin/false ENOENT'')"
    by (simp add: shell_spawn_def module_init_def linux_host_def linux_exec_def)
  have "string_entries (process_env ?s) ''ANTHROPIC_API_KEY'' = Some ''sk-ant-1''"
    by (simp add: string_entries_lookup module_init_def)
  then have B: "\<exists>m s'. getShellEnvironment linux_host 1000 ?s = Inr (m, s')
        \<and> m ''ANTHROPIC_API_KEY'' = Some ''sk-ant-1''"
    using getShellEnvironment_fallback [OF pl cm sp] by simp
  from A B show ?thesis by blast
qed

theorem claude_env_sensitive_keys_witness:
  "\<exists>m c. getClaudeShellEnvironment linux_host [''PATH'' \<mapsto> Str ''/usr/bin''] None = Inr (m, c)
      \<and> m ''PATH'' = Some (Str ''/usr/local/bin:/usr/bin'')
      \<and> parseEnvOutput linux_host linux_dump ''ANTHROPIC_API_KEY'' = Some ''sk-ant-1''
      \<and> m ''ANTHROPIC_API_KEY'' = None
      \<and> (\<exists>m2 c2. buildClaudeEnv linux_host [''PATH'' \<mapsto> Str ''/usr/bin''] None c = Inr (m2, c2)
            \<and> m2 ''ANTHROPIC_API_KEY'' = None \<and> m2 ''CLAUDE_CODE_ENTRYPOINT'' = Some (Str ''sdk-ts''))"
proof -
  let ?pe = "[''PATH'' \<mapsto> Str ''/usr/bin'']"
  let ?m = "strip_keys STRIPPED_ENV_KEYS (to_obj (parseEnvOutput linux_host linux_dump))"
  have g: "getClaudeShellEnvironment linux_host ?pe None = Inr (?m, Some ?m)"
    by (simp add: getClaudeShellEnvironment_def claude_shell_def linux_host_def Let_def)
  have p: "?m ''PATH'' = Some (Str ''/usr/local/bin:/usr/bin'')"
    by (simp add: strip_keys_lookup STRIPPED_ENV_KEYS_def to_obj_def linux_dump_path)
  have u: "userInfo_username linux_host = Inr ''u''" by (simp add: linux_host_def)
  obtain m2 c2 where b: "buildClaudeEnv linux_host ?pe None (Some ?m) = Inr (m2, c2)"
    and ep: "m2 ''CLAUDE_CODE_ENTRYPOINT'' = Some (Str ''sdk-ts'')"
    using buildClaudeEnv_returns [OF u, of ?pe None "Some ?m"] by blast
  let ?calls = "[GetShellEnv linux_host ?pe, BuildEnv linux_host ?pe None]"
  have run: "fst (env_run ?calls None) =
      [(GetShellEnv linux_host ?pe, Inr ?m), (BuildEnv linux_host ?pe None, Inr m2)]"
    using g b by (simp add: Let_def)
  from claude_env_sensitive_keys [of ?calls]
  have "\<forall>cr \<in> set (fst (env_run ?calls None)). result_ok cr" by blast
  then have ok: "sensitive_free ?m"
    "list_all (\<lambda>k. m2 k \<noteq> None \<longrightarrow> supplied ?pe None k) STRIPPED_ENV_KEYS"
    unfolding run by simp_all
  from ok(1) have k1: "?m ''ANTHROPIC_API_KEY'' = None"
    by (simp add: sensitive_free_def STRIPPED_ENV_KEYS_def)
  from ok(2) have k2: "m2 ''ANTHROPIC_API_KEY'' = None"
    by (simp add: STRIPPED_ENV_KEYS_def supplied_def)
  from g p k1 b k2 ep linux_dump_key show ?thesis by blast
qed

subsection \<open>The Windows PATH of claude/env.ts\<close>

lemma claude_add_common_extends:
  "\<exists>app. claude_add_common nrm cs paths = paths @ app \<and> set app \<subseteq> nrm ` set cs"
proof (induction cs arbitrary: paths)
  case Nil
  then show ?case by simp
next
  case (Cons c cs)
  show ?case
  proof (cases "nrm c \<in> set paths")
    case True
    with Cons.IH [of paths] show ?thesis by (auto simp: Let_def)
  next
    case False
    from Cons.IH [of "paths @ [nrm c]"] obtain app where
      "claude_add_common nrm cs (paths @ [nrm c]) = (paths @ [nrm c]) @ app" "set app \<subseteq> nrm ` set cs"
      by blast
    with False have "claude_add_common nrm (c # cs) paths = paths @ (nrm c # app)
        \<and> set (nrm c # app) \<subseteq> nrm ` set (c # cs)"
      by (auto simp: Let_def)
    then show ?thesis by blast
  qed
qed

text \<open>What the loop of claude/env.ts does guarantee: an appended entry differs, as a
  string, from every entry that stands before it.\<close>

lemma claude_add_common_fresh:
  "j < length (claude_add_common nrm cs paths) \<Longrightarrow> length paths \<le> j \<Longrightarrow> i < j \<Longrightarrow>
     claude_add_common nrm cs paths ! i \<noteq> claude_add_common nrm cs paths ! j"
proof (induction cs arbitrary: paths)
  case Nil
  then show ?case by simp
next
  case (Cons c cs)
  show ?case
  proof (cases "nrm c \<in> set paths")
    case True
    then have "claude_add_common nrm (c # cs) paths = claude_add_common nrm cs paths"
      by (simp add: Let_def)
    with Cons show ?thesis by simp
  next
    case False
    then have eq: "claude_add_common nrm (c # cs) paths = claude_add_common nrm cs (paths @ [nrm c])"
      by (simp add: Let_def)
    obtain app where app: "claude_add_common nrm cs (paths @ [nrm c]) = (paths @ [nrm c]) @ app"
      using claude_add_common_extends [of nrm cs "paths @ [nrm c]"] by blast
    show ?thesis
    proof (cases "j = length paths")
      case True
      with Cons.prems have "i < length paths" by simp
      with True app have "claude_add_common nrm cs (paths @ [nrm c]) ! i = paths ! i"
          "claude_add_common nrm cs (paths @ [nrm c]) ! j = nrm c"
        by (simp_all add: nth_append)
      moreover from False \<open>i < length paths\<close> have "paths ! i \<noteq> nrm c"
        by (metis nth_mem)
      ultimately show ?thesis using eq by simp
    next
      case False
      with Cons.prems have "length (paths @ [nrm c]) \<le> j" by simp
      with Cons.IH [of "paths @ [nrm c]"] Cons.prems eq show ?thesis by simp
    qed
  qed
qed

text \<open>
  C9: on a Windows machine whose \<open>PATH\<close> spells the system directory \<open>system32\<close> and
  whose \<open>SystemRoot\<close> is set, \<open>buildWindowsPath\<close> of claude/env.ts appends the candidate
  \<open>System32\<close> although the first entry equals it after normalization and case folding:
  it compares with \<open>paths.includes\<close>. \<open>buildWindowsPath\<close> of shell-env.ts, which folds
  the case of both sides, does not append it (\<open>git_add_common_fresh\<close> is the general
  statement).
\<close>

theorem claude_buildWindowsPath_case_duplicate:
  "claude_path_entries win_host win_env =
     [win_path [''C:'', ''WINDOWS'', ''system32''],
      win_path [''C:'', ''WINDOWS''],
      win_path [''C:'', ''Users'', ''u'', ''.local'', ''bin''],
      win_path [''C:'', ''Program Files'', ''Claude''],
      win_path [''C:'', ''Program Files (x86)'', ''Claude''],
      win_path [''C:'', ''Users'', ''u'', ''AppData'', ''Local'', ''Programs'', ''Claude''],
      win_path [''C:'', ''WINDOWS'', ''System32'']]
 \<and> toLowerCase (normalize win_host (win_path [''C:'', ''WINDOWS'', ''system32'']))
      = toLowerCase (win_path [''C:'', ''WINDOWS'', ''System32''])
 \<and> git_path_entries win_host win_env =
     [win_path [''C:'', ''WINDOWS'', ''system32''],
      win_path [''C:'', ''WINDOWS''],
      win_path [''C:'', ''Users'', ''u'', ''.local'', ''bin''],
      win_path [''C:'', ''Program Files'', ''Git'', ''cmd''],
      win_path [''C:'', ''Program Files'', ''Git'', ''bin'']]"
  by code_simp

end
